theory Spec2Isabelle
  imports Main
begin

section \<open>Python values, faults and observable effects\<close>

text \<open>
  The three modules of the chatbot (\<^verbatim>\<open>app.py\<close>, \<^verbatim>\<open>external_info_retriever.py\<close>,
  \<^verbatim>\<open>llm_rag_service.py\<close>) are embedded as HOL functions. A Python \<^verbatim>\<open>str\<close> is a
  \<^typ>\<open>string\<close>, an \<^verbatim>\<open>Optional[str]\<close> is a \<^typ>\<open>string option\<close>, and the truth value
  Python gives such a value in \<^verbatim>\<open>if v\<close> / \<^verbatim>\<open>not v\<close> is \<open>truthy\<close>: \<^verbatim>\<open>None\<close> and the empty
  string are false.
\<close>

definition truthy :: "string option \<Rightarrow> bool" where
  "truthy v = (case v of None \<Rightarrow> False | Some s \<Rightarrow> s \<noteq> [])"

text \<open>
  A fault is an instance of Python's \<^verbatim>\<open>Exception\<close>; the constructors are the classes the
  handlers of the source tell apart, each carrying the text \<^verbatim>\<open>str(e)\<close>. Signals that derive
  from \<^verbatim>\<open>BaseException\<close> only (\<^verbatim>\<open>KeyboardInterrupt\<close>, \<^verbatim>\<open>SystemExit\<close>) are not faults of
  a collaborator and are outside the model.
\<close>

datatype fault =
    HttpError string
  | JSONDecodeError string
  | AttributeError string
  | ValueError string
  | UnboundLocalError string
  | OtherException string

fun str_of_fault :: "fault \<Rightarrow> string" where
  "str_of_fault (HttpError m) = m"
| "str_of_fault (JSONDecodeError m) = m"
| "str_of_fault (AttributeError m) = m"
| "str_of_fault (ValueError m) = m"
| "str_of_fault (UnboundLocalError m) = m"
| "str_of_fault (OtherException m) = m"

text \<open>
  \<^verbatim>\<open>langchain_core.documents.Document\<close>: the text and the metadata dictionary, whose
  entries are kept in the order the source writes them. A chat message is a
  \<^verbatim>\<open>HumanMessage\<close>, an \<^verbatim>\<open>AIMessage\<close> or the system message of a prompt.
\<close>

record document =
  page_content :: string
  metadata :: "(string \<times> string) list"

datatype message = SystemMessage string | HumanMessage string | AIMessage string

text \<open>
  The request \<^verbatim>\<open>build("customsearch", "v1", developerKey=...).cse().list(q=..., cx=..., num=...)\<close>
  of the search provider.
\<close>

record search_request =
  developerKey :: "string option"
  q :: string
  cx :: "string option"
  num :: nat

text \<open>
  Everything a function does besides returning is written to a trace: the text it
  prints, the Streamlit notices it shows and every call it makes to a collaborator. The
  type \<open>'v\<close> is the type of embedding vectors, which the program never inspects.
\<close>

datatype 'v event =
    Printed string
  | TracebackPrinted
  | StWarning string
  | StError string
  | StInfo string
  | StSuccess string
  | StMarkdown string
  | ExtractionCall string
  | BuildService "string option"
  | SearchCall search_request
  | EmbedDocuments "string list"
  | EmbedQuery string
  | SimilaritySearch "(document \<times> 'v) list" 'v nat
  | CompletionCall "message list"

text \<open>
  A computation yields a fault or a value, together with its trace. \<open>call\<close> is one
  call to a collaborator, \<open>bind\<close> sequencing: a fault ends the \<^verbatim>\<open>try\<close> body at once and
  keeps the trace up to there.
\<close>

type_synonym ('v, 'a) comp = "(fault + 'a) \<times> 'v event list"

definition ret :: "'a \<Rightarrow> ('v, 'a) comp" where
  "ret a = (Inr a, [])"

definition raise :: "fault \<Rightarrow> ('v, 'a) comp" where
  "raise e = (Inl e, [])"

definition call :: "'v event \<Rightarrow> fault + 'a \<Rightarrow> ('v, 'a) comp" where
  "call ev r = (r, [ev])"

definition emit :: "'v event \<Rightarrow> ('v, unit) comp" where
  "emit ev = (Inr (), [ev])"

definition bind :: "('v, 'a) comp \<Rightarrow> ('a \<Rightarrow> ('v, 'b) comp) \<Rightarrow> ('v, 'b) comp" where
  "bind m f =
     (case m of
        (Inl e, t) \<Rightarrow> (Inl e, t)
      | (Inr a, t) \<Rightarrow> (case f a of (r, t') \<Rightarrow> (r, t @ t')))"

text \<open>
  The collaborators, which are not code of this repository: the extraction chain
  (\<^verbatim>\<open>extraction_prompt | extraction_llm | StrOutputParser()\<close>), \<^verbatim>\<open>json.loads\<close>, the
  construction of the search client (\<^verbatim>\<open>build\<close>, given the developer key), the search
  request itself, the embedding model, the similarity search of the vector store and the
  chat model. Each answers a request with a value or a fault.
\<close>

datatype pyobj = Dict "(string \<times> string option) list" | NonDict string

type_synonym item = "(string \<times> string) list"

record 'v env =
  extraction_chain :: "string \<Rightarrow> fault + string"
  json_loads :: "string \<Rightarrow> fault + pyobj"
  build :: "string option \<Rightarrow> fault + unit"
  search :: "search_request \<Rightarrow> fault + item list option"
  embed_documents :: "string list \<Rightarrow> fault + 'v list"
  embed_query :: "string \<Rightarrow> fault + 'v"
  similarity_search :: "(document \<times> 'v) list \<Rightarrow> 'v \<Rightarrow> nat \<Rightarrow> fault + document list"
  llm_invoke :: "message list \<Rightarrow> fault + string"

text \<open>
  The configuration each module reads from the environment when it is imported
  (\<^verbatim>\<open>os.getenv\<close> gives \<^verbatim>\<open>None\<close> for a variable that is not set).
\<close>

record config =
  GOOGLE_API_KEY :: "string option"
  GOOGLE_CSE_ID :: "string option"
  GOOGLE_API_KEY_FOR_SEARCH :: "string option"

section \<open>\<^verbatim>\<open>llm_rag_service.py\<close>\<close>

text \<open>
  The vector store. \<^verbatim>\<open>Chroma.from_documents(documents=external_documents,
  embedding=embeddings)\<close> names neither a collection nor a client nor a directory, so the
  library opens its default collection in the in-memory client of the process, embeds
  the texts of the documents in one call and adds each document with its vector to that
  collection, under a new identifier. The collection lives as long as the process: it is
  the one piece of state a call of \<^verbatim>\<open>get_rag_answer\<close> leaves behind, and it is passed
  explicitly, as the entries it holds in the order they were added. The store the call
  gets back reads the whole collection. The library refuses a batch of vectors whose
  length is not that of the documents; nothing is added then, nor when the embedding
  fails.
\<close>

type_synonym 'v collection = "(document \<times> 'v) list"

definition Chroma_from_documents ::
  "'v env \<Rightarrow> 'v collection \<Rightarrow> document list \<Rightarrow> ('v, 'v collection) comp" where
  "Chroma_from_documents env store documents =
     bind (call (EmbedDocuments (map page_content documents))
             (embed_documents env (map page_content documents))) (\<lambda>vectors.
     if length vectors \<noteq> length documents
     then raise (ValueError ''Number of embeddings must match number of ids'')
     else ret (store @ zip documents vectors))"

text \<open>
  \<^verbatim>\<open>vectorstore.as_retriever(search_kwargs={"k": 3})\<close>, invoked with a query: the query
  is embedded and the store is searched for the \<open>k\<close> nearest documents.
\<close>

definition retriever_invoke ::
  "'v env \<Rightarrow> 'v collection \<Rightarrow> nat \<Rightarrow> string \<Rightarrow> ('v, document list) comp" where
  "retriever_invoke env vectorstore k query =
     bind (call (EmbedQuery query) (embed_query env query)) (\<lambda>qv.
     call (SimilaritySearch vectorstore qv k) (similarity_search env vectorstore qv k))"

definition qa_system_text :: string where
  "qa_system_text =
     ''You are an AI assistant specializing in providing information about various companies' services. '' @
     ''Use the following 'SEARCH RESULTS' to answer the user's question accurately and concisely. '' @
     ''Focus only on the information provided in the 'SEARCH RESULTS'. '' @
     ''If the 'SEARCH RESULTS' do not contain the answer, state clearly that you cannot find the answer '' @
     ''based on the provided information. Do not make up any details. '' @
     ''If the user asks for contact information, provide it if available in the search results, otherwise state it's not available.'' @
     ''\<newline>\<newline>SEARCH RESULTS:\<newline>''"

text \<open>
  \<^verbatim>\<open>"\n\n".join(...)\<close>, with which the documents chain puts the texts of the retrieved
  documents into \<^verbatim>\<open>{context}\<close>.
\<close>

fun join_context :: "string list \<Rightarrow> string" where
  "join_context [] = []"
| "join_context [s] = s"
| "join_context (s # t # ss) = s @ ''\<newline>\<newline>'' @ join_context (t # ss)"

definition qa_prompt :: "document list \<Rightarrow> message list \<Rightarrow> string \<Rightarrow> message list" where
  "qa_prompt context chat_history input =
     [SystemMessage (qa_system_text @ join_context (map page_content context))]
     @ chat_history
     @ [HumanMessage input]"

text \<open>\<^verbatim>\<open>create_stuff_documents_chain(llm, qa_prompt)\<close>: one call of the chat model.\<close>

definition document_chain ::
  "'v env \<Rightarrow> document list \<Rightarrow> message list \<Rightarrow> string \<Rightarrow> ('v, string) comp" where
  "document_chain env context chat_history input =
     call (CompletionCall (qa_prompt context chat_history input))
       (llm_invoke env (qa_prompt context chat_history input))"

text \<open>
  \<^verbatim>\<open>create_retrieval_chain(retriever, document_chain).invoke({"input": ..., "chat_history": ...})\<close>:
  the retriever sees \<^verbatim>\<open>input\<close> only; the documents chain sees the retrieved documents,
  the history and the input. The response is a dictionary with the keys \<^verbatim>\<open>context\<close> (the
  field \<open>context_docs\<close>) and \<^verbatim>\<open>answer\<close>.
\<close>

record chain_response =
  context_docs :: "document list"
  answer :: "string option"

definition retrieval_chain_invoke ::
  "'v env \<Rightarrow> 'v collection \<Rightarrow> string \<Rightarrow> message list \<Rightarrow> ('v, chain_response) comp" where
  "retrieval_chain_invoke env vectorstore input chat_history =
     bind (retriever_invoke env vectorstore 3 input) (\<lambda>docs.
     bind (document_chain env docs chat_history input) (\<lambda>a.
     ret \<lparr>context_docs = docs, answer = Some a\<rparr>))"

definition not_configured_msg :: string where
  "not_configured_msg =
     ''I'm sorry, my core AI capabilities are not configured. Please check the API key.''"

definition no_relevant_info_msg :: string where
  "no_relevant_info_msg =
     ''I couldn't find enough relevant information on the web to answer that specific query. Please try rephrasing or asking about a different company/service.''"

definition no_answer_msg :: string where
  "no_answer_msg = ''I couldn't generate an answer based on the retrieved information.''"

definition internal_error_msg :: string where
  "internal_error_msg =
     ''I'm sorry, I encountered an internal error while trying to process your request.''"

text \<open>
  The body of the \<^verbatim>\<open>try\<close> statement of \<^verbatim>\<open>get_rag_answer\<close>, run on the collection as the
  process has it: the outcome with its trace, and the collection afterwards, which has
  the new entries as soon as \<^verbatim>\<open>from_documents\<close> has returned, whatever happens later.
\<close>

definition rag_try ::
  "'v env \<Rightarrow> 'v collection \<Rightarrow> string \<Rightarrow> document list \<Rightarrow> message list
     \<Rightarrow> ('v, string) comp \<times> 'v collection" where
  "rag_try env store user_question external_documents chat_history =
     (bind (Chroma_from_documents env store external_documents) (\<lambda>vectorstore.
      bind (retrieval_chain_invoke env vectorstore user_question chat_history) (\<lambda>response.
      ret (case answer response of None \<Rightarrow> no_answer_msg | Some a \<Rightarrow> a))),
      (case fst (Chroma_from_documents env store external_documents) of
         Inl e \<Rightarrow> store
       | Inr vectorstore \<Rightarrow> vectorstore))"

text \<open>
  \<^verbatim>\<open>get_rag_answer\<close>: the two guards in the order of the source, then the \<^verbatim>\<open>try\<close> body
  with its handler \<^verbatim>\<open>except Exception\<close>. The function keeps no state of its own; the
  second component is the collection of the library after the call.
\<close>

definition get_rag_answer ::
  "'v env \<Rightarrow> config \<Rightarrow> 'v collection \<Rightarrow> string \<Rightarrow> document list \<Rightarrow> message list
     \<Rightarrow> ('v, string) comp \<times> 'v collection" where
  "get_rag_answer env cfg store user_question external_documents chat_history =
     (if \<not> truthy (GOOGLE_API_KEY cfg) then (ret not_configured_msg, store)
      else if external_documents = [] then (ret no_relevant_info_msg, store)
      else
        ((case fst (rag_try env store user_question external_documents chat_history) of
            (Inr a, t) \<Rightarrow> (Inr a, t)
          | (Inl e, t) \<Rightarrow>
              (Inr internal_error_msg,
               t @ [Printed (''An error occurred during RAG processing: '' @ str_of_fault e),
                    TracebackPrinted])),
         snd (rag_try env store user_question external_documents chat_history)))"

section \<open>\<^verbatim>\<open>external_info_retriever.py\<close>\<close>

text \<open>\<^verbatim>\<open>d.get(k, default)\<close> on a dictionary.\<close>

definition dict_get :: "(string \<times> 'a) list \<Rightarrow> string \<Rightarrow> 'a \<Rightarrow> 'a" where
  "dict_get d k dflt = (case map_of d k of None \<Rightarrow> dflt | Some v \<Rightarrow> v)"

text \<open>The body of the loop over \<^verbatim>\<open>response['items']\<close>: one document from one item.\<close>

definition item_document :: "string \<Rightarrow> string \<Rightarrow> item \<Rightarrow> document" where
  "item_document company_name search_query item =
     (let title = dict_get item ''title'' ''No Title'';
          snippet = dict_get item ''snippet'' ''No Snippet'';
          link = dict_get item ''link'' ''No Link''
      in \<lparr>page_content = snippet,
          metadata = [(''source'', link), (''title'', title),
                      (''company'', company_name), (''search_query'', search_query)]\<rparr>)"

text \<open>
  The body of the \<^verbatim>\<open>try\<close> statement of \<^verbatim>\<open>get_company_web_content\<close>. First
  \<^verbatim>\<open>build("customsearch", "v1", developerKey=...)\<close> makes the client; when it raises, the
  body is left before any request exists. Then \<^verbatim>\<open>service.cse().list(...).execute()\<close> sends
  the one request. The response is \<open>None\<close> when it has no key \<^verbatim>\<open>items\<close>.
\<close>

definition search_try ::
  "'v env \<Rightarrow> config \<Rightarrow> string \<Rightarrow> string \<Rightarrow> ('v, document list) comp" where
  "search_try env cfg company_name search_query =
     bind (call (BuildService (GOOGLE_API_KEY_FOR_SEARCH cfg))
             (build env (GOOGLE_API_KEY_FOR_SEARCH cfg))) (\<lambda>service.
     bind (call (SearchCall \<lparr>developerKey = GOOGLE_API_KEY_FOR_SEARCH cfg, q = search_query,
                             cx = GOOGLE_CSE_ID cfg, num = 5\<rparr>)
             (search env \<lparr>developerKey = GOOGLE_API_KEY_FOR_SEARCH cfg, q = search_query,
                          cx = GOOGLE_CSE_ID cfg, num = 5\<rparr>)) (\<lambda>response.
     ret (case response of
            None \<Rightarrow> []
          | Some items \<Rightarrow> map (item_document company_name search_query) items)))"

definition get_company_web_content ::
  "'v env \<Rightarrow> config \<Rightarrow> string \<Rightarrow> string \<Rightarrow> ('v, document list) comp" where
  "get_company_web_content env cfg company_name service_keywords =
     (if \<not> truthy (GOOGLE_CSE_ID cfg) \<or> \<not> truthy (GOOGLE_API_KEY_FOR_SEARCH cfg)
      then (Inr [], [Printed ''Error: Google Custom Search API keys are not configured.''])
      else
        (let search_query =
               company_name @ '' '' @ service_keywords @ '' services reviews official site''
         in case search_try env cfg company_name search_query of
              (Inr documents, t) \<Rightarrow> (Inr documents, t)
            | (Inl (HttpError m), t) \<Rightarrow>
                (Inr [], t @ [Printed (''Google Custom Search API Error: '' @ m)])
            | (Inl e, t) \<Rightarrow>
                (Inr [], t @ [Printed (''An unexpected error occurred during web content retrieval: ''
                                        @ str_of_fault e)])))"

section \<open>\<^verbatim>\<open>app.py\<close>\<close>

text \<open>
  \<^verbatim>\<open>str.strip()\<close> removes leading and trailing white space; \<^verbatim>\<open>str.replace(old, new)\<close>
  replaces the occurrences of a non-empty \<open>old\<close> from left to right, without overlap.
\<close>

definition py_isspace :: "char \<Rightarrow> bool" where
  "py_isspace c =
     (c \<in> set [CHR 0x09, CHR 0x0A, CHR 0x0B, CHR 0x0C, CHR 0x0D,
                CHR 0x1C, CHR 0x1D, CHR 0x1E, CHR 0x1F, CHR 0x20, CHR 0x85, CHR 0xA0])"

definition py_strip :: "string \<Rightarrow> string" where
  "py_strip s = rev (dropWhile py_isspace (rev (dropWhile py_isspace s)))"

fun starts_with :: "string \<Rightarrow> string \<Rightarrow> bool" where
  "starts_with [] s = True"
| "starts_with (p # ps) [] = False"
| "starts_with (p # ps) (c # cs) = (p = c \<and> starts_with ps cs)"

function py_replace :: "string \<Rightarrow> string \<Rightarrow> string \<Rightarrow> string" where
  "py_replace old new [] = []"
| "py_replace old new (c # cs) =
     (if old \<noteq> [] \<and> starts_with old (c # cs)
      then new @ py_replace old new (drop (length old) (c # cs))
      else c # py_replace old new cs)"
  by pat_completeness auto
termination
  by (relation "measure (\<lambda>(old, new, s). length s)") (auto simp: neq_Nil_conv)

definition apostrophe :: string where
  "apostrophe = [CHR 0x27]"

text \<open>
  The two handlers of \<^verbatim>\<open>extract_query_entities\<close>, tried in the order of the source. The
  first one formats \<^verbatim>\<open>json_str\<close> into its warning; \<open>json_str\<close> is \<open>None\<close> when the fault was
  raised before the local variable was assigned, and reading it then raises
  \<^verbatim>\<open>UnboundLocalError\<close> out of the handler.
\<close>

definition extract_handlers ::
  "string option \<Rightarrow> fault \<Rightarrow> ('v, string option \<times> string option) comp" where
  "extract_handlers json_str e =
     (case e of
        JSONDecodeError m \<Rightarrow>
          (case json_str of
             None \<Rightarrow>
               raise (UnboundLocalError
                 ''cannot access local variable 'json_str' where it is not associated with a value'')
           | Some js \<Rightarrow>
               (Inr (None, None),
                [StWarning (''Could not parse entity extraction response: '' @ js
                             @ ''. Error: '' @ m)]))
      | _ \<Rightarrow>
          (Inr (None, None), [StError (''Error during entity extraction: '' @ str_of_fault e)]))"

text \<open>
  \<^verbatim>\<open>extract_query_entities\<close>. \<^verbatim>\<open>json.loads\<close> gives a dictionary of optional strings (the
  two fields the prompt asks for, \<^verbatim>\<open>null\<close> being \<open>None\<close>) or a value of another type, named
  by its class, on which \<^verbatim>\<open>.get\<close> raises \<^verbatim>\<open>AttributeError\<close>.
\<close>

definition extract_query_entities ::
  "'v env \<Rightarrow> string \<Rightarrow> ('v, string option \<times> string option) comp" where
  "extract_query_entities env query =
     bind (emit (ExtractionCall query)) (\<lambda>_.
     case extraction_chain env query of
       Inl e \<Rightarrow> extract_handlers None e
     | Inr raw \<Rightarrow>
         (let json_str =
                py_replace ''\<newline>```'' [] (py_replace ''```json\<newline>'' [] (py_strip raw))
          in case json_loads env json_str of
               Inl e \<Rightarrow> extract_handlers (Some json_str) e
             | Inr (NonDict cls) \<Rightarrow>
                 extract_handlers (Some json_str)
                   (AttributeError (apostrophe @ cls @ apostrophe
                                    @ '' object has no attribute 'get'' @ apostrophe))
             | Inr (Dict entities) \<Rightarrow>
                 ret (dict_get entities ''company_name'' None,
                      dict_get entities ''service_keywords'' None)))"

text \<open>The session's transcript and its conversion for LangChain.\<close>

record chat_entry =
  role :: string
  content :: string

fun get_langchain_chat_history :: "chat_entry list \<Rightarrow> message list" where
  "get_langchain_chat_history [] = []"
| "get_langchain_chat_history (msg # msgs) =
     (if role msg = ''user'' then HumanMessage (content msg) # get_langchain_chat_history msgs
      else if role msg = ''assistant'' then AIMessage (content msg) # get_langchain_chat_history msgs
      else get_langchain_chat_history msgs)"

text \<open>Formatting in an f-string: an \<^verbatim>\<open>Optional[str]\<close> and the length of a list.\<close>

definition py_format :: "string option \<Rightarrow> string" where
  "py_format v = (case v of None \<Rightarrow> ''None'' | Some s \<Rightarrow> s)"

function str_of_nat :: "nat \<Rightarrow> string" where
  "str_of_nat n =
     (if n < 10 then [char_of (48 + n)]
      else str_of_nat (n div 10) @ [char_of (48 + n mod 10)])"
  by pat_completeness auto
termination
  by (relation "measure id") auto

definition greeting_reply :: string where
  "greeting_reply = ''Hello there! How can I assist you with company services today?''"

definition acknowledgement_reply :: string where
  "acknowledgement_reply =
     ''You're welcome! Is there anything specific about company services you'd like to know?''"

definition no_specific_info_msg :: string where
  "no_specific_info_msg =
     ''I couldn't find specific information for that company and service on the web. Could you please rephrase or provide more details?''"

definition clarification_prompt :: "string option \<Rightarrow> string" where
  "clarification_prompt company_name =
     ''I can look up information about '' @ py_format company_name
     @ ''. What specific services or aspects are you interested in?''"

definition not_identified_msg :: string where
  "not_identified_msg =
     ''I couldn't identify a specific company or service in your query. Please ask about a company's services (e.g., 'What are Google's cloud services?').''"

text \<open>
  The branch of the script that maps the extracted pair to the reply \<^verbatim>\<open>llm_response\<close>,
  the conditions in the order of the source: the outcome with its trace, and the
  collection of the vector store afterwards, which only the call of \<^verbatim>\<open>get_rag_answer\<close>
  can change.
\<close>

definition orchestrate ::
  "'v env \<Rightarrow> config \<Rightarrow> 'v collection \<Rightarrow> string \<Rightarrow> message list
     \<Rightarrow> string option \<Rightarrow> string option \<Rightarrow> ('v, string) comp \<times> 'v collection" where
  "orchestrate env cfg store prompt chat_history company_name service_keywords =
     (if company_name = Some ''GREETING'' \<and> service_keywords = Some ''GREETING''
      then (ret greeting_reply, store)
      else if company_name = Some ''CHITCHAT'' \<and> service_keywords = Some ''CHITCHAT''
      then (ret acknowledgement_reply, store)
      else if truthy company_name \<and> truthy service_keywords
      then
        (bind (emit (StInfo (''Searching for: Company='' @ apostrophe @ py_format company_name
                             @ apostrophe @ '', Services='' @ apostrophe
                             @ py_format service_keywords @ apostrophe))) (\<lambda>_.
         bind (get_company_web_content env cfg (the company_name) (the service_keywords))
           (\<lambda>external_documents.
         if external_documents \<noteq> []
         then
           bind (emit (StSuccess (''Found '' @ str_of_nat (length external_documents)
                                  @ '' relevant snippets. Generating answer...''))) (\<lambda>_.
           fst (get_rag_answer env cfg store prompt external_documents chat_history))
         else ret no_specific_info_msg)),
         (case fst (get_company_web_content env cfg (the company_name) (the service_keywords)) of
            Inl e \<Rightarrow> store
          | Inr external_documents \<Rightarrow>
              if external_documents \<noteq> []
              then snd (get_rag_answer env cfg store prompt external_documents chat_history)
              else store))
      else if truthy company_name
      then (ret (clarification_prompt company_name), store)
      else (ret not_identified_msg, store))"

text \<open>
  One turn of the script, from the user's input to the reply: the transcript gets the
  user's entry first, so the history handed on ends with the current prompt. The result
  is the outcome with its trace, the transcript after the turn and the collection of
  the vector store after the turn. (The script gets here only when \<^verbatim>\<open>GOOGLE_API_KEY\<close> is
  set: it stops at its start otherwise.)
\<close>

definition handle_prompt ::
  "'v env \<Rightarrow> config \<Rightarrow> 'v collection \<Rightarrow> chat_entry list \<Rightarrow> string
     \<Rightarrow> ('v, string) comp \<times> chat_entry list \<times> 'v collection" where
  "handle_prompt env cfg store messages prompt =
     (let messages1 = messages @ [\<lparr>role = ''user'', content = prompt\<rparr>];
          current_langchain_chat_history = get_langchain_chat_history messages1
      in case bind (emit (StMarkdown prompt)) (\<lambda>_.
              bind (extract_query_entities env prompt) (\<lambda>(company_name, service_keywords).
              bind (fst (orchestrate env cfg store prompt current_langchain_chat_history
                           company_name service_keywords)) (\<lambda>llm_response.
              bind (emit (StMarkdown llm_response)) (\<lambda>_. ret llm_response)))) of
           (Inl e, t) \<Rightarrow> ((Inl e, t), messages1, store)
         | (Inr llm_response, t) \<Rightarrow>
             ((Inr llm_response, t),
              messages1 @ [\<lparr>role = ''assistant'', content = llm_response\<rparr>],
              (case fst (extract_query_entities env prompt) of
                 Inl e \<Rightarrow> store
               | Inr (company_name, service_keywords) \<Rightarrow>
                   snd (orchestrate env cfg store prompt current_langchain_chat_history
                          company_name service_keywords))))"

section \<open>Reading a trace\<close>

text \<open>
  The requests sent to the search provider, the queries sent to the extraction chain,
  the events of the retrieval step (embedding and similarity search, as opposed to the
  completion) and the stores that were searched, each in the order of the trace.
\<close>

fun search_calls :: "'v event list \<Rightarrow> search_request list" where
  "search_calls [] = []"
| "search_calls (SearchCall r # evs) = r # search_calls evs"
| "search_calls (ev # evs) = search_calls evs"

fun extraction_calls :: "'v event list \<Rightarrow> string list" where
  "extraction_calls [] = []"
| "extraction_calls (ExtractionCall query # evs) = query # extraction_calls evs"
| "extraction_calls (ev # evs) = extraction_calls evs"

fun retrieval_events :: "'v event list \<Rightarrow> 'v event list" where
  "retrieval_events [] = []"
| "retrieval_events (EmbedDocuments texts # evs) = EmbedDocuments texts # retrieval_events evs"
| "retrieval_events (EmbedQuery text # evs) = EmbedQuery text # retrieval_events evs"
| "retrieval_events (SimilaritySearch store qv k # evs) =
     SimilaritySearch store qv k # retrieval_events evs"
| "retrieval_events (ev # evs) = retrieval_events evs"

fun indexes_queried :: "'v event list \<Rightarrow> 'v collection list" where
  "indexes_queried [] = []"
| "indexes_queried (SimilaritySearch store qv k # evs) = store # indexes_queried evs"
| "indexes_queried (ev # evs) = indexes_queried evs"

section \<open>Stub collaborators for concrete runs\<close>

text \<open>
  A fixed set of collaborators and settings on which the functions above can be run:
  the embedding of a text is its length, the similarity search gives the first \<open>k\<close>
  documents of the store, and the search provider finds two items, the second of which
  has a title only.
\<close>

definition example_items :: "item list" where
  "example_items =
     [[(''title'', ''CompanyX Cloud Services''), (''snippet'', ''Details about CompanyX cloud.''),
       (''link'', ''http://companyx.com/cloud'')],
      [(''title'', ''CompanyX Support Plans'')]]"

definition example_env :: "nat env" where
  "example_env =
     \<lparr>extraction_chain = (\<lambda>query. Inr ''{}''),
      json_loads = (\<lambda>s. Inr (Dict [(''company_name'', Some ''CompanyX''),
                                     (''service_keywords'', Some ''cloud services'')])),
      build = (\<lambda>key. Inr ()),
      search = (\<lambda>r. Inr (Some example_items)),
      embed_documents = (\<lambda>texts. Inr (map length texts)),
      embed_query = (\<lambda>text. Inr (length text)),
      similarity_search = (\<lambda>store qv k. Inr (take k (map fst store))),
      llm_invoke = (\<lambda>messages. Inr ''CompanyX offers cloud services.'')\<rparr>"

definition example_cfg :: config where
  "example_cfg =
     \<lparr>GOOGLE_API_KEY = Some ''mock_gemini_api_key'',
      GOOGLE_CSE_ID = Some ''mock_cse_id'',
      GOOGLE_API_KEY_FOR_SEARCH = Some ''mock_api_key_for_search''\<rparr>"

definition unconfigured_cfg :: config where
  "unconfigured_cfg =
     \<lparr>GOOGLE_API_KEY = None, GOOGLE_CSE_ID = None, GOOGLE_API_KEY_FOR_SEARCH = None\<rparr>"

definition example_docs :: "document list" where
  "example_docs =
     [\<lparr>page_content = ''Company A is a leading provider of cloud services.'',
       metadata = [(''source'', ''doc1'')]\<rparr>,
      \<lparr>page_content = ''Their cloud services are known for high availability.'',
       metadata = [(''source'', ''doc2'')]\<rparr>]"

section \<open>Sequencing\<close>

lemma bind_Inl: "bind (Inl e, t) f = (Inl e, t)"
  by (simp add: bind_def)

lemma bind_Inr: "bind (Inr a, t) f = (fst (f a), t @ snd (f a))"
  by (simp add: bind_def split: prod.split)

lemma bind_call_Inl: "r = Inl e \<Longrightarrow> bind (call ev r) f = (Inl e, [ev])"
  by (simp add: call_def bind_Inl)

lemma bind_call_Inr: "r = Inr a \<Longrightarrow> bind (call ev r) f = (fst (f a), ev # snd (f a))"
  by (simp add: call_def bind_Inr)

lemma bind_emit: "bind (emit ev) f = (fst (f ()), ev # snd (f ()))"
  by (simp add: emit_def bind_Inr)

section \<open>The answer synthesizer \<^verbatim>\<open>get_rag_answer\<close>\<close>

lemma rag_try_cases:
  "fst (rag_try env store uq docs hist) =
     (case embed_documents env (map page_content docs) of
        Inl e \<Rightarrow> (Inl e, [EmbedDocuments (map page_content docs)])
      | Inr vs \<Rightarrow>
          if length vs \<noteq> length docs
          then (Inl (ValueError ''Number of embeddings must match number of ids''),
                [EmbedDocuments (map page_content docs)])
          else
            (case embed_query env uq of
               Inl e \<Rightarrow> (Inl e, [EmbedDocuments (map page_content docs), EmbedQuery uq])
             | Inr qv \<Rightarrow>
                 (case similarity_search env (store @ zip docs vs) qv 3 of
                    Inl e \<Rightarrow>
                      (Inl e, [EmbedDocuments (map page_content docs), EmbedQuery uq,
                               SimilaritySearch (store @ zip docs vs) qv 3])
                  | Inr ctx \<Rightarrow>
                      (llm_invoke env (qa_prompt ctx hist uq),
                       [EmbedDocuments (map page_content docs), EmbedQuery uq,
                        SimilaritySearch (store @ zip docs vs) qv 3,
                        CompletionCall (qa_prompt ctx hist uq)]))))"
  by (simp add: rag_try_def Chroma_from_documents_def retrieval_chain_invoke_def
      retriever_invoke_def document_chain_def bind_def call_def ret_def raise_def
      split: sum.split)

lemma rag_try_store:
  "snd (rag_try env store uq docs hist) =
     (case embed_documents env (map page_content docs) of
        Inl e \<Rightarrow> store
      | Inr vs \<Rightarrow> if length vs \<noteq> length docs then store else store @ zip docs vs)"
  by (simp add: rag_try_def Chroma_from_documents_def bind_def call_def ret_def raise_def
      split: sum.split)

lemma get_rag_answer_returns:
  "\<exists>s. fst (fst (get_rag_answer env cfg store uq docs hist)) = Inr s"
  by (auto simp: get_rag_answer_def ret_def split: prod.split sum.split)

lemma get_rag_answer_fault:
  assumes "truthy (GOOGLE_API_KEY cfg) \<and> docs \<noteq> []"
    and "\<exists>e. fst (fst (rag_try env store uq docs hist)) = Inl e"
  shows "fst (fst (get_rag_answer env cfg store uq docs hist)) = Inr internal_error_msg"
  using assms by (auto simp: get_rag_answer_def split: prod.split sum.split)

lemma rag_try_embed_documents_fault:
  "embed_documents env (map page_content docs) = Inl e \<Longrightarrow>
   fst (fst (rag_try env store uq docs hist)) = Inl e"
  by (simp add: rag_try_cases)

lemma rag_try_index_fault:
  "embed_documents env (map page_content docs) = Inr vs \<Longrightarrow> length vs \<noteq> length docs \<Longrightarrow>
   \<exists>e. fst (fst (rag_try env store uq docs hist)) = Inl e"
  by (simp add: rag_try_cases)

lemma rag_try_embed_query_fault:
  "embed_documents env (map page_content docs) = Inr vs \<Longrightarrow> length vs = length docs \<Longrightarrow>
   embed_query env uq = Inl e \<Longrightarrow> fst (fst (rag_try env store uq docs hist)) = Inl e"
  by (simp add: rag_try_cases)

lemma rag_try_search_fault:
  "embed_documents env (map page_content docs) = Inr vs \<Longrightarrow> length vs = length docs \<Longrightarrow>
   embed_query env uq = Inr qv \<Longrightarrow> similarity_search env (store @ zip docs vs) qv 3 = Inl e \<Longrightarrow>
   fst (fst (rag_try env store uq docs hist)) = Inl e"
  by (simp add: rag_try_cases)

lemma rag_try_completion_fault:
  "embed_documents env (map page_content docs) = Inr vs \<Longrightarrow> length vs = length docs \<Longrightarrow>
   embed_query env uq = Inr qv \<Longrightarrow> similarity_search env (store @ zip docs vs) qv 3 = Inr ctx \<Longrightarrow>
   llm_invoke env (qa_prompt ctx hist uq) = Inl e \<Longrightarrow>
   fst (fst (rag_try env store uq docs hist)) = Inl e"
  by (simp add: rag_try_cases)

text \<open>
  Claim C9. The guard on the configuration comes before the guard on the documents:
  when \<^verbatim>\<open>GOOGLE_API_KEY\<close> is not set (or is empty), \<^verbatim>\<open>get_rag_answer\<close> returns the
  "core AI capabilities are not configured" text for every question, document list and
  history, without any effect; in particular an empty document list then does not give
  the "couldn't find enough relevant information" text.
\<close>

theorem missing_key_guard_first:
  "\<not> truthy (GOOGLE_API_KEY cfg) \<longrightarrow>
     get_rag_answer env cfg store uq docs hist = ((Inr not_configured_msg, []), store)
     \<and> fst (fst (get_rag_answer env cfg store uq [] hist)) \<noteq> Inr no_relevant_info_msg"
  by (simp add: get_rag_answer_def ret_def not_configured_msg_def no_relevant_info_msg_def)

theorem missing_key_guard_first_witness:
  "\<not> truthy (GOOGLE_API_KEY unconfigured_cfg)
   \<and> get_rag_answer example_env unconfigured_cfg [] ''What services?'' example_docs [] =
       ((Inr not_configured_msg, []), [])
   \<and> fst (fst (get_rag_answer example_env unconfigured_cfg [] ''What services?'' [] [])) \<noteq>
       Inr no_relevant_info_msg"
proof -
  have k: "\<not> truthy (GOOGLE_API_KEY unconfigured_cfg)"
    by (simp add: truthy_def unconfigured_cfg_def)
  show ?thesis
    using k missing_key_guard_first [of unconfigured_cfg example_env "[]" "''What services?''"
        example_docs "[]"]
    by simp
qed

text \<open>
  Claim C1, as stated, fails when the key is not configured: with an empty document list
  the result is then the "not configured" text, not the "couldn't find enough relevant
  information" text.
\<close>

theorem empty_documents_without_key_counterexample:
  "fst (fst (get_rag_answer example_env unconfigured_cfg []
               ''What services does Company Z provide?'' [] []))
     \<noteq> Inr no_relevant_info_msg"
  by (simp add: get_rag_answer_def ret_def not_configured_msg_def no_relevant_info_msg_def
      unconfigured_cfg_def truthy_def)

text \<open>
  Claim C1, amended. With a configured key and an empty document list, whatever the
  question and the history, \<^verbatim>\<open>get_rag_answer\<close> returns exactly the "couldn't find enough
  relevant information" text; and with an empty document list, configured key or not,
  its trace is empty: neither the embedding model nor the chat model is called.
\<close>

theorem empty_documents_fallback:
  "(truthy (GOOGLE_API_KEY cfg) \<longrightarrow>
      get_rag_answer env cfg store uq [] hist = ((Inr no_relevant_info_msg, []), store))
   \<and> snd (fst (get_rag_answer env cfg store uq [] hist)) = []"
  by (simp add: get_rag_answer_def ret_def)

theorem empty_documents_fallback_witness:
  "truthy (GOOGLE_API_KEY example_cfg)
   \<and> get_rag_answer example_env example_cfg [] ''What services does Company Z provide?'' [] [] =
       ((Inr no_relevant_info_msg, []), [])"
proof -
  have k: "truthy (GOOGLE_API_KEY example_cfg)"
    by (simp add: truthy_def example_cfg_def)
  show ?thesis
    using k empty_documents_fallback [of example_cfg example_env "[]"
        "''What services does Company Z provide?''" "[]"]
    by simp
qed

text \<open>
  Claim C3. \<^verbatim>\<open>get_rag_answer\<close> always returns a text, never a fault. Past the two guards,
  a fault of the \<^verbatim>\<open>try\<close> body gives the "internal error" text, whichever step raised it:
  embedding the documents, adding them to the store, embedding the question, searching
  the store, or the completion.
\<close>

theorem rag_faults_caught:
  "(\<exists>s. fst (fst (get_rag_answer env cfg store uq docs hist)) = Inr s)
   \<and> (truthy (GOOGLE_API_KEY cfg) \<and> docs \<noteq> [] \<longrightarrow>
        (\<forall>e. fst (fst (rag_try env store uq docs hist)) = Inl e \<longrightarrow>
           fst (fst (get_rag_answer env cfg store uq docs hist)) = Inr internal_error_msg)
      \<and> (\<forall>e. embed_documents env (map page_content docs) = Inl e \<longrightarrow>
           fst (fst (get_rag_answer env cfg store uq docs hist)) = Inr internal_error_msg)
      \<and> (\<forall>vs. embed_documents env (map page_content docs) = Inr vs \<longrightarrow>
           (length vs \<noteq> length docs \<longrightarrow>
              fst (fst (get_rag_answer env cfg store uq docs hist)) = Inr internal_error_msg)
         \<and> (length vs = length docs \<longrightarrow>
              (\<forall>e. embed_query env uq = Inl e \<longrightarrow>
                 fst (fst (get_rag_answer env cfg store uq docs hist)) = Inr internal_error_msg)
            \<and> (\<forall>qv. embed_query env uq = Inr qv \<longrightarrow>
                 (\<forall>e. similarity_search env (store @ zip docs vs) qv 3 = Inl e \<longrightarrow>
                    fst (fst (get_rag_answer env cfg store uq docs hist)) = Inr internal_error_msg)
               \<and> (\<forall>ctx e. similarity_search env (store @ zip docs vs) qv 3 = Inr ctx \<longrightarrow>
                    llm_invoke env (qa_prompt ctx hist uq) = Inl e \<longrightarrow>
                    fst (fst (get_rag_answer env cfg store uq docs hist)) = Inr internal_error_msg)))))"
proof (intro conjI impI allI)
  show "\<exists>s. fst (fst (get_rag_answer env cfg store uq docs hist)) = Inr s"
    by (rule get_rag_answer_returns)
next
  fix e assume "truthy (GOOGLE_API_KEY cfg) \<and> docs \<noteq> []"
    "fst (fst (rag_try env store uq docs hist)) = Inl e"
  then show "fst (fst (get_rag_answer env cfg store uq docs hist)) = Inr internal_error_msg"
    by (intro get_rag_answer_fault) (simp, rule exI)
next
  fix e assume "truthy (GOOGLE_API_KEY cfg) \<and> docs \<noteq> []"
    "embed_documents env (map page_content docs) = Inl e"
  then show "fst (fst (get_rag_answer env cfg store uq docs hist)) = Inr internal_error_msg"
    by (intro get_rag_answer_fault) (simp, simp add: rag_try_embed_documents_fault)
next
  fix vs assume "truthy (GOOGLE_API_KEY cfg) \<and> docs \<noteq> []"
    "embed_documents env (map page_content docs) = Inr vs" "length vs \<noteq> length docs"
  then show "fst (fst (get_rag_answer env cfg store uq docs hist)) = Inr internal_error_msg"
    by (intro get_rag_answer_fault) (simp, simp add: rag_try_index_fault)
next
  fix vs e assume "truthy (GOOGLE_API_KEY cfg) \<and> docs \<noteq> []"
    "embed_documents env (map page_content docs) = Inr vs" "length vs = length docs"
    "embed_query env uq = Inl e"
  then show "fst (fst (get_rag_answer env cfg store uq docs hist)) = Inr internal_error_msg"
    by (intro get_rag_answer_fault) (simp, simp add: rag_try_embed_query_fault)
next
  fix vs qv e assume "truthy (GOOGLE_API_KEY cfg) \<and> docs \<noteq> []"
    "embed_documents env (map page_content docs) = Inr vs" "length vs = length docs"
    "embed_query env uq = Inr qv" "similarity_search env (store @ zip docs vs) qv 3 = Inl e"
  then show "fst (fst (get_rag_answer env cfg store uq docs hist)) = Inr internal_error_msg"
    by (intro get_rag_answer_fault) (simp, simp add: rag_try_search_fault)
next
  fix vs qv ctx e assume "truthy (GOOGLE_API_KEY cfg) \<and> docs \<noteq> []"
    "embed_documents env (map page_content docs) = Inr vs" "length vs = length docs"
    "embed_query env uq = Inr qv" "similarity_search env (store @ zip docs vs) qv 3 = Inr ctx"
    "llm_invoke env (qa_prompt ctx hist uq) = Inl e"
  then show "fst (fst (get_rag_answer env cfg store uq docs hist)) = Inr internal_error_msg"
    by (intro get_rag_answer_fault) (simp, simp add: rag_try_completion_fault)
qed

theorem rag_faults_caught_witness:
  "fst (fst (get_rag_answer
          (example_env\<lparr>llm_invoke := (\<lambda>messages. Inl (OtherException ''LLM API connection failed''))\<rparr>)
          example_cfg [] ''Test question.'' example_docs [])) = Inr internal_error_msg
   \<and> fst (fst (get_rag_answer
          (example_env\<lparr>embed_documents := (\<lambda>texts. Inl (OtherException ''quota exceeded''))\<rparr>)
          example_cfg [] ''Test question.'' example_docs [])) = Inr internal_error_msg"
  using rag_faults_caught [of
      "example_env\<lparr>llm_invoke := (\<lambda>messages. Inl (OtherException ''LLM API connection failed''))\<rparr>"
      example_cfg "[]" "''Test question.''" example_docs "[]"]
    rag_faults_caught [of
      "example_env\<lparr>embed_documents := (\<lambda>texts. Inl (OtherException ''quota exceeded''))\<rparr>"
      example_cfg "[]" "''Test question.''" example_docs "[]"]
  by (simp add: example_env_def example_cfg_def example_docs_def truthy_def)

section \<open>The web snippet retriever \<^verbatim>\<open>get_company_web_content\<close>\<close>

lemma search_try_eq:
  "search_try env cfg company sq =
     (case build env (GOOGLE_API_KEY_FOR_SEARCH cfg) of
        Inl e \<Rightarrow> (Inl e, [BuildService (GOOGLE_API_KEY_FOR_SEARCH cfg)])
      | Inr service \<Rightarrow>
          (case search env \<lparr>developerKey = GOOGLE_API_KEY_FOR_SEARCH cfg, q = sq,
                             cx = GOOGLE_CSE_ID cfg, num = 5\<rparr> of
             Inl e \<Rightarrow> Inl e
           | Inr response \<Rightarrow>
               Inr (case response of None \<Rightarrow> []
                    | Some items \<Rightarrow> map (item_document company sq) items),
           [BuildService (GOOGLE_API_KEY_FOR_SEARCH cfg),
            SearchCall \<lparr>developerKey = GOOGLE_API_KEY_FOR_SEARCH cfg, q = sq,
                        cx = GOOGLE_CSE_ID cfg, num = 5\<rparr>]))"
  by (simp add: search_try_def call_def bind_def ret_def split: sum.split)

lemma web_content_returns:
  "\<exists>docs. fst (get_company_web_content env cfg company kws) = Inr docs"
  by (simp add: get_company_web_content_def search_try_eq Let_def split: sum.split fault.split)

lemma web_content_no_credentials:
  "\<not> truthy (GOOGLE_CSE_ID cfg) \<or> \<not> truthy (GOOGLE_API_KEY_FOR_SEARCH cfg) \<Longrightarrow>
   fst (get_company_web_content env cfg company kws) = Inr []"
  by (auto simp: get_company_web_content_def)

lemma web_content_build_fault:
  "build env (GOOGLE_API_KEY_FOR_SEARCH cfg) = Inl e \<Longrightarrow>
   fst (get_company_web_content env cfg company kws) = Inr []"
  by (simp add: get_company_web_content_def search_try_eq Let_def split: fault.split)

lemma web_content_fault:
  "search env \<lparr>developerKey = GOOGLE_API_KEY_FOR_SEARCH cfg,
                q = company @ '' '' @ kws @ '' services reviews official site'',
                cx = GOOGLE_CSE_ID cfg, num = 5\<rparr> = Inl e \<Longrightarrow>
   fst (get_company_web_content env cfg company kws) = Inr []"
  by (simp add: get_company_web_content_def search_try_eq Let_def split: fault.split sum.split)

lemma web_content_no_items:
  "search env \<lparr>developerKey = GOOGLE_API_KEY_FOR_SEARCH cfg,
                q = company @ '' '' @ kws @ '' services reviews official site'',
                cx = GOOGLE_CSE_ID cfg, num = 5\<rparr> = Inr response \<Longrightarrow>
   response = None \<or> response = Some [] \<Longrightarrow>
   fst (get_company_web_content env cfg company kws) = Inr []"
  by (auto simp: get_company_web_content_def search_try_eq Let_def split: fault.split sum.split)

lemma web_content_ok:
  "truthy (GOOGLE_CSE_ID cfg) \<Longrightarrow> truthy (GOOGLE_API_KEY_FOR_SEARCH cfg) \<Longrightarrow>
   build env (GOOGLE_API_KEY_FOR_SEARCH cfg) = Inr service \<Longrightarrow>
   search env \<lparr>developerKey = GOOGLE_API_KEY_FOR_SEARCH cfg,
                q = company @ '' '' @ kws @ '' services reviews official site'',
                cx = GOOGLE_CSE_ID cfg, num = 5\<rparr> = Inr response \<Longrightarrow>
   fst (get_company_web_content env cfg company kws) =
     Inr (case response of None \<Rightarrow> []
          | Some items \<Rightarrow>
              map (item_document company
                     (company @ '' '' @ kws @ '' services reviews official site'')) items)"
  by (simp add: get_company_web_content_def search_try_eq Let_def split: option.split)

lemma web_content_search_calls:
  "truthy (GOOGLE_CSE_ID cfg) \<Longrightarrow> truthy (GOOGLE_API_KEY_FOR_SEARCH cfg) \<Longrightarrow>
   search_calls (snd (get_company_web_content env cfg company kws)) =
     (case build env (GOOGLE_API_KEY_FOR_SEARCH cfg) of
        Inl e \<Rightarrow> []
      | Inr service \<Rightarrow>
          [\<lparr>developerKey = GOOGLE_API_KEY_FOR_SEARCH cfg,
            q = company @ '' '' @ kws @ '' services reviews official site'',
            cx = GOOGLE_CSE_ID cfg, num = 5\<rparr>])"
  by (simp add: get_company_web_content_def search_try_eq Let_def split: sum.split fault.split)

lemma item_document_fields:
  "page_content (item_document company sq item) =
     (case map_of item ''snippet'' of None \<Rightarrow> ''No Snippet'' | Some s \<Rightarrow> s)"
  "map_of (metadata (item_document company sq item)) ''source'' =
     Some (case map_of item ''link'' of None \<Rightarrow> ''No Link'' | Some s \<Rightarrow> s)"
  "map_of (metadata (item_document company sq item)) ''title'' =
     Some (case map_of item ''title'' of None \<Rightarrow> ''No Title'' | Some s \<Rightarrow> s)"
  "map_of (metadata (item_document company sq item)) ''company'' = Some company"
  "map_of (metadata (item_document company sq item)) ''search_query'' = Some sq"
  by (simp_all add: item_document_def dict_get_def Let_def)

text \<open>
  Claim C2. \<^verbatim>\<open>get_company_web_content\<close> always returns a list of documents, never a
  fault; the list is empty when a credential is missing, when making the client or
  sending the request raises any fault, and when the provider's response has no items
  (no key \<^verbatim>\<open>items\<close>, or an empty list under it).
\<close>

theorem web_content_degrades_to_empty:
  "(\<exists>docs. fst (get_company_web_content env cfg company kws) = Inr docs)
   \<and> (\<not> truthy (GOOGLE_CSE_ID cfg) \<or> \<not> truthy (GOOGLE_API_KEY_FOR_SEARCH cfg) \<longrightarrow>
        fst (get_company_web_content env cfg company kws) = Inr [])
   \<and> (\<forall>e. build env (GOOGLE_API_KEY_FOR_SEARCH cfg) = Inl e \<longrightarrow>
        fst (get_company_web_content env cfg company kws) = Inr [])
   \<and> (\<forall>e. search env \<lparr>developerKey = GOOGLE_API_KEY_FOR_SEARCH cfg,
                        q = company @ '' '' @ kws @ '' services reviews official site'',
                        cx = GOOGLE_CSE_ID cfg, num = 5\<rparr> = Inl e \<longrightarrow>
        fst (get_company_web_content env cfg company kws) = Inr [])
   \<and> (\<forall>response. search env \<lparr>developerKey = GOOGLE_API_KEY_FOR_SEARCH cfg,
                        q = company @ '' '' @ kws @ '' services reviews official site'',
                        cx = GOOGLE_CSE_ID cfg, num = 5\<rparr> = Inr response \<longrightarrow>
        response = None \<or> response = Some [] \<longrightarrow>
        fst (get_company_web_content env cfg company kws) = Inr [])"
proof (intro conjI impI allI)
  show "\<exists>docs. fst (get_company_web_content env cfg company kws) = Inr docs"
    by (rule web_content_returns)
next
  assume "\<not> truthy (GOOGLE_CSE_ID cfg) \<or> \<not> truthy (GOOGLE_API_KEY_FOR_SEARCH cfg)"
  then show "fst (get_company_web_content env cfg company kws) = Inr []"
    by (rule web_content_no_credentials)
next
  fix e
  assume "build env (GOOGLE_API_KEY_FOR_SEARCH cfg) = Inl e"
  then show "fst (get_company_web_content env cfg company kws) = Inr []"
    by (rule web_content_build_fault)
next
  fix e
  assume "search env \<lparr>developerKey = GOOGLE_API_KEY_FOR_SEARCH cfg,
                        q = company @ '' '' @ kws @ '' services reviews official site'',
                        cx = GOOGLE_CSE_ID cfg, num = 5\<rparr> = Inl e"
  then show "fst (get_company_web_content env cfg company kws) = Inr []"
    by (rule web_content_fault)
next
  fix response
  assume "search env \<lparr>developerKey = GOOGLE_API_KEY_FOR_SEARCH cfg,
                        q = company @ '' '' @ kws @ '' services reviews official site'',
                        cx = GOOGLE_CSE_ID cfg, num = 5\<rparr> = Inr response"
    and "response = None \<or> response = Some []"
  then show "fst (get_company_web_content env cfg company kws) = Inr []"
    by (rule web_content_no_items)
qed

theorem web_content_degrades_to_empty_witness:
  "fst (get_company_web_content example_env unconfigured_cfg ''CompanyB'' ''services'') = Inr []
   \<and> fst (get_company_web_content
            (example_env\<lparr>search := (\<lambda>r. Inl (HttpError ''Forbidden''))\<rparr>)
            example_cfg ''CompanyA'' ''services'') = Inr []
   \<and> fst (get_company_web_content
            (example_env\<lparr>build := (\<lambda>key. Inl (OtherException ''discovery failed''))\<rparr>)
            example_cfg ''CompanyA'' ''services'') = Inr []
   \<and> fst (get_company_web_content
            (example_env\<lparr>search := (\<lambda>r. Inr (Some []))\<rparr>)
            example_cfg ''NonExistentCompany'' ''services'') = Inr []"
  using web_content_degrades_to_empty [of example_env unconfigured_cfg "''CompanyB''" "''services''"]
    web_content_degrades_to_empty [of "example_env\<lparr>search := (\<lambda>r. Inl (HttpError ''Forbidden''))\<rparr>"
      example_cfg "''CompanyA''" "''services''"]
    web_content_degrades_to_empty [of
      "example_env\<lparr>build := (\<lambda>key. Inl (OtherException ''discovery failed''))\<rparr>"
      example_cfg "''CompanyA''" "''services''"]
    web_content_degrades_to_empty [of "example_env\<lparr>search := (\<lambda>r. Inr (Some []))\<rparr>"
      example_cfg "''NonExistentCompany''" "''services''"]
  by (simp add: unconfigured_cfg_def truthy_def)

text \<open>
  Claim C6, as stated, fails when \<^verbatim>\<open>build\<close> raises: both credentials are configured, the
  fault is caught, and no search request has been sent, so it is not the case that
  exactly one is.
\<close>

theorem one_request_without_client_counterexample:
  "search_calls (snd (get_company_web_content
      (example_env\<lparr>build := (\<lambda>key. Inl (OtherException ''discovery failed''))\<rparr>)
      example_cfg ''CompanyX'' ''cloud services'')) = []
   \<and> length (search_calls (snd (get_company_web_content
      (example_env\<lparr>build := (\<lambda>key. Inl (OtherException ''discovery failed''))\<rparr>)
      example_cfg ''CompanyX'' ''cloud services''))) \<noteq> 1"
  by (simp add: web_content_search_calls example_cfg_def truthy_def)

text \<open>
  Claim C6, amended. With both credentials configured, \<^verbatim>\<open>get_company_web_content(company,
  kws)\<close> sends at most one request to the search provider: none when \<^verbatim>\<open>build\<close> raises,
  exactly one when \<^verbatim>\<open>build\<close> returns. Every request sent has the query
  \<^verbatim>\<open>"{company} {kws} services reviews official site"\<close> and \<^verbatim>\<open>num=5\<close>, so it asks for at most
  5 results. When the provider answers with items, there is one document per item, in
  the same order: its content is the item's snippet and its metadata hold the item's link
  (\<^verbatim>\<open>source\<close>) and title, the company and the query, with \<^verbatim>\<open>No Snippet\<close>, \<^verbatim>\<open>No Link\<close> and
  \<^verbatim>\<open>No Title\<close> for a field the item does not have.
\<close>

theorem web_content_request_and_mapping:
  "truthy (GOOGLE_CSE_ID cfg) \<and> truthy (GOOGLE_API_KEY_FOR_SEARCH cfg) \<longrightarrow>
     length (search_calls (snd (get_company_web_content env cfg company kws))) \<le> 1
     \<and> (\<forall>r \<in> set (search_calls (snd (get_company_web_content env cfg company kws))).
          r = \<lparr>developerKey = GOOGLE_API_KEY_FOR_SEARCH cfg,
               q = company @ '' '' @ kws @ '' services reviews official site'',
               cx = GOOGLE_CSE_ID cfg, num = 5\<rparr>
          \<and> num r \<le> 5)
     \<and> (\<forall>e. build env (GOOGLE_API_KEY_FOR_SEARCH cfg) = Inl e \<longrightarrow>
          search_calls (snd (get_company_web_content env cfg company kws)) = [])
     \<and> (\<forall>service. build env (GOOGLE_API_KEY_FOR_SEARCH cfg) = Inr service \<longrightarrow>
          search_calls (snd (get_company_web_content env cfg company kws)) =
            [\<lparr>developerKey = GOOGLE_API_KEY_FOR_SEARCH cfg,
              q = company @ '' '' @ kws @ '' services reviews official site'',
              cx = GOOGLE_CSE_ID cfg, num = 5\<rparr>]
          \<and> (\<forall>items.
               search env \<lparr>developerKey = GOOGLE_API_KEY_FOR_SEARCH cfg,
                            q = company @ '' '' @ kws @ '' services reviews official site'',
                            cx = GOOGLE_CSE_ID cfg, num = 5\<rparr> = Inr (Some items) \<longrightarrow>
               (\<exists>docs. fst (get_company_web_content env cfg company kws) = Inr docs
                  \<and> length docs = length items
                  \<and> (\<forall>i < length items.
                       page_content (docs ! i) =
                         (case map_of (items ! i) ''snippet'' of
                            None \<Rightarrow> ''No Snippet'' | Some s \<Rightarrow> s)
                       \<and> map_of (metadata (docs ! i)) ''source'' =
                           Some (case map_of (items ! i) ''link'' of
                                   None \<Rightarrow> ''No Link'' | Some s \<Rightarrow> s)
                       \<and> map_of (metadata (docs ! i)) ''title'' =
                           Some (case map_of (items ! i) ''title'' of
                                   None \<Rightarrow> ''No Title'' | Some s \<Rightarrow> s)
                       \<and> map_of (metadata (docs ! i)) ''company'' = Some company
                       \<and> map_of (metadata (docs ! i)) ''search_query'' =
                           Some (company @ '' '' @ kws @ '' services reviews official site'')))))"
proof (intro impI)
  assume c: "truthy (GOOGLE_CSE_ID cfg) \<and> truthy (GOOGLE_API_KEY_FOR_SEARCH cfg)"
  let ?sq = "company @ '' '' @ kws @ '' services reviews official site''"
  let ?req = "\<lparr>developerKey = GOOGLE_API_KEY_FOR_SEARCH cfg, q = ?sq,
               cx = GOOGLE_CSE_ID cfg, num = 5\<rparr>"
  let ?calls = "search_calls (snd (get_company_web_content env cfg company kws))"
  have calls: "?calls = (case build env (GOOGLE_API_KEY_FOR_SEARCH cfg) of
        Inl e \<Rightarrow> [] | Inr service \<Rightarrow> [?req])"
    using c by (simp add: web_content_search_calls)
  have l: "length ?calls \<le> 1"
    unfolding calls by (simp split: sum.split)
  have a: "\<forall>r \<in> set ?calls. r = ?req \<and> num r \<le> 5"
    unfolding calls by (simp split: sum.split)
  have b: "\<forall>e. build env (GOOGLE_API_KEY_FOR_SEARCH cfg) = Inl e \<longrightarrow> ?calls = []"
    unfolding calls by simp
  have m: "\<forall>service. build env (GOOGLE_API_KEY_FOR_SEARCH cfg) = Inr service \<longrightarrow>
          ?calls = [?req]
          \<and> (\<forall>items. search env ?req = Inr (Some items) \<longrightarrow>
               (\<exists>docs. fst (get_company_web_content env cfg company kws) = Inr docs
                  \<and> length docs = length items
                  \<and> (\<forall>i < length items.
                       page_content (docs ! i) =
                         (case map_of (items ! i) ''snippet'' of
                            None \<Rightarrow> ''No Snippet'' | Some s \<Rightarrow> s)
                       \<and> map_of (metadata (docs ! i)) ''source'' =
                           Some (case map_of (items ! i) ''link'' of
                                   None \<Rightarrow> ''No Link'' | Some s \<Rightarrow> s)
                       \<and> map_of (metadata (docs ! i)) ''title'' =
                           Some (case map_of (items ! i) ''title'' of
                                   None \<Rightarrow> ''No Title'' | Some s \<Rightarrow> s)
                       \<and> map_of (metadata (docs ! i)) ''company'' = Some company
                       \<and> map_of (metadata (docs ! i)) ''search_query'' = Some ?sq)))"
  proof (intro allI impI conjI)
    fix service
    assume bs: "build env (GOOGLE_API_KEY_FOR_SEARCH cfg) = Inr service"
    then show "?calls = [?req]"
      unfolding calls by simp
    fix items
    assume s: "search env ?req = Inr (Some items)"
    have r: "fst (get_company_web_content env cfg company kws) =
             Inr (map (item_document company ?sq) items)"
      using c bs s web_content_ok [of cfg env service company kws "Some items"] by simp
    show "\<exists>docs. fst (get_company_web_content env cfg company kws) = Inr docs
                  \<and> length docs = length items
                  \<and> (\<forall>i < length items.
                       page_content (docs ! i) =
                         (case map_of (items ! i) ''snippet'' of
                            None \<Rightarrow> ''No Snippet'' | Some s \<Rightarrow> s)
                       \<and> map_of (metadata (docs ! i)) ''source'' =
                           Some (case map_of (items ! i) ''link'' of
                                   None \<Rightarrow> ''No Link'' | Some s \<Rightarrow> s)
                       \<and> map_of (metadata (docs ! i)) ''title'' =
                           Some (case map_of (items ! i) ''title'' of
                                   None \<Rightarrow> ''No Title'' | Some s \<Rightarrow> s)
                       \<and> map_of (metadata (docs ! i)) ''company'' = Some company
                       \<and> map_of (metadata (docs ! i)) ''search_query'' = Some ?sq)"
    proof (intro exI conjI allI impI)
      show "fst (get_company_web_content env cfg company kws) =
              Inr (map (item_document company ?sq) items)"
        by (rule r)
    qed (simp_all only: length_map nth_map item_document_fields)
  qed
  from l a b m show "length ?calls \<le> 1
     \<and> (\<forall>r \<in> set ?calls. r = ?req \<and> num r \<le> 5)
     \<and> (\<forall>e. build env (GOOGLE_API_KEY_FOR_SEARCH cfg) = Inl e \<longrightarrow> ?calls = [])
     \<and> (\<forall>service. build env (GOOGLE_API_KEY_FOR_SEARCH cfg) = Inr service \<longrightarrow>
          ?calls = [?req]
          \<and> (\<forall>items. search env ?req = Inr (Some items) \<longrightarrow>
               (\<exists>docs. fst (get_company_web_content env cfg company kws) = Inr docs
                  \<and> length docs = length items
                  \<and> (\<forall>i < length items.
                       page_content (docs ! i) =
                         (case map_of (items ! i) ''snippet'' of
                            None \<Rightarrow> ''No Snippet'' | Some s \<Rightarrow> s)
                       \<and> map_of (metadata (docs ! i)) ''source'' =
                           Some (case map_of (items ! i) ''link'' of
                                   None \<Rightarrow> ''No Link'' | Some s \<Rightarrow> s)
                       \<and> map_of (metadata (docs ! i)) ''title'' =
                           Some (case map_of (items ! i) ''title'' of
                                   None \<Rightarrow> ''No Title'' | Some s \<Rightarrow> s)
                       \<and> map_of (metadata (docs ! i)) ''company'' = Some company
                       \<and> map_of (metadata (docs ! i)) ''search_query'' = Some ?sq))))"
    by blast
qed

theorem web_content_request_and_mapping_witness:
  "search_calls (snd (get_company_web_content example_env example_cfg ''CompanyX'' ''cloud services'')) =
     [\<lparr>developerKey = Some ''mock_api_key_for_search'',
       q = ''CompanyX cloud services services reviews official site'',
       cx = Some ''mock_cse_id'', num = 5\<rparr>]
   \<and> (\<exists>docs. fst (get_company_web_content example_env example_cfg ''CompanyX'' ''cloud services'') = Inr docs
        \<and> length docs = 2
        \<and> page_content (docs ! 0) = ''Details about CompanyX cloud.''
        \<and> map_of (metadata (docs ! 0)) ''source'' = Some ''http://companyx.com/cloud''
        \<and> page_content (docs ! 1) = ''No Snippet''
        \<and> map_of (metadata (docs ! 1)) ''source'' = Some ''No Link''
        \<and> map_of (metadata (docs ! 1)) ''title'' = Some ''CompanyX Support Plans'')"
proof -
  let ?req = "\<lparr>developerKey = GOOGLE_API_KEY_FOR_SEARCH example_cfg,
              q = ''CompanyX'' @ '' '' @ ''cloud services'' @ '' services reviews official site'',
              cx = GOOGLE_CSE_ID example_cfg, num = 5\<rparr>"
  let ?run = "get_company_web_content example_env example_cfg ''CompanyX'' ''cloud services''"
  have c: "truthy (GOOGLE_CSE_ID example_cfg) \<and> truthy (GOOGLE_API_KEY_FOR_SEARCH example_cfg)"
    by (simp add: example_cfg_def truthy_def)
  have b: "build example_env (GOOGLE_API_KEY_FOR_SEARCH example_cfg) = Inr ()"
    by (simp add: example_env_def)
  have s: "search example_env ?req = Inr (Some example_items)"
    by (simp add: example_env_def)
  from web_content_request_and_mapping [of example_cfg example_env "''CompanyX''" "''cloud services''"] c
  have t: "\<forall>service. build example_env (GOOGLE_API_KEY_FOR_SEARCH example_cfg) = Inr service \<longrightarrow>
          search_calls (snd ?run) = [?req]
          \<and> (\<forall>items. search example_env ?req = Inr (Some items) \<longrightarrow>
               (\<exists>docs. fst ?run = Inr docs
                  \<and> length docs = length items
                  \<and> (\<forall>i < length items.
                       page_content (docs ! i) =
                         (case map_of (items ! i) ''snippet'' of
                            None \<Rightarrow> ''No Snippet'' | Some s \<Rightarrow> s)
                       \<and> map_of (metadata (docs ! i)) ''source'' =
                           Some (case map_of (items ! i) ''link'' of
                                   None \<Rightarrow> ''No Link'' | Some s \<Rightarrow> s)
                       \<and> map_of (metadata (docs ! i)) ''title'' =
                           Some (case map_of (items ! i) ''title'' of
                                   None \<Rightarrow> ''No Title'' | Some s \<Rightarrow> s)
                       \<and> map_of (metadata (docs ! i)) ''company'' = Some ''CompanyX''
                       \<and> map_of (metadata (docs ! i)) ''search_query'' =
                           Some (''CompanyX'' @ '' '' @ ''cloud services''
                                 @ '' services reviews official site''))))"
    by blast
  from t b have calls: "search_calls (snd ?run) = [?req]"
    by blast
  from t b s obtain docs where
    d: "fst ?run = Inr docs"
    and l: "length docs = length example_items"
    and f: "\<forall>i < length example_items.
                  page_content (docs ! i) =
                    (case map_of (example_items ! i) ''snippet'' of
                       None \<Rightarrow> ''No Snippet'' | Some s \<Rightarrow> s)
                  \<and> map_of (metadata (docs ! i)) ''source'' =
                      Some (case map_of (example_items ! i) ''link'' of
                              None \<Rightarrow> ''No Link'' | Some s \<Rightarrow> s)
                  \<and> map_of (metadata (docs ! i)) ''title'' =
                      Some (case map_of (example_items ! i) ''title'' of
                              None \<Rightarrow> ''No Title'' | Some s \<Rightarrow> s)"
    by blast
  have n: "length example_items = 2" by (simp add: example_items_def)
  from f n have f0: "page_content (docs ! 0) = ''Details about CompanyX cloud.''
      \<and> map_of (metadata (docs ! 0)) ''source'' = Some ''http://companyx.com/cloud''"
    by (simp add: example_items_def)
  from f n have f1: "page_content (docs ! 1) = ''No Snippet''
      \<and> map_of (metadata (docs ! 1)) ''source'' = Some ''No Link''
      \<and> map_of (metadata (docs ! 1)) ''title'' = Some ''CompanyX Support Plans''"
    by (simp add: example_items_def)
  from calls have calls': "search_calls (snd ?run) =
     [\<lparr>developerKey = Some ''mock_api_key_for_search'',
       q = ''CompanyX cloud services services reviews official site'',
       cx = Some ''mock_cse_id'', num = 5\<rparr>]"
    by (simp add: example_cfg_def)
  from d l n f0 f1 calls' show ?thesis by auto
qed

section \<open>The turn orchestrator\<close>

lemma orchestrate_greeting:
  "orchestrate env cfg store prompt hist (Some ''GREETING'') (Some ''GREETING'') =
     (ret greeting_reply, store)"
  by (simp add: orchestrate_def)

lemma orchestrate_chitchat:
  "orchestrate env cfg store prompt hist (Some ''CHITCHAT'') (Some ''CHITCHAT'') =
     (ret acknowledgement_reply, store)"
  by (simp add: orchestrate_def)

lemma orchestrate_rag:
  assumes "\<not> (c = Some ''GREETING'' \<and> k = Some ''GREETING'')"
    and "\<not> (c = Some ''CHITCHAT'' \<and> k = Some ''CHITCHAT'')"
    and "truthy c" and "truthy k"
    and "fst (get_company_web_content env cfg (the c) (the k)) = Inr docs"
  shows "fst (fst (orchestrate env cfg store prompt hist c k)) =
           (if docs = [] then Inr no_specific_info_msg
            else fst (fst (get_rag_answer env cfg store prompt docs hist)))"
  using assms
  by (cases "get_company_web_content env cfg (the c) (the k)")
     (auto simp: orchestrate_def bind_emit bind_Inr ret_def)

lemma orchestrate_clarify:
  "truthy c \<Longrightarrow> \<not> truthy k \<Longrightarrow>
   orchestrate env cfg store prompt hist c k = (ret (clarification_prompt c), store)"
  by (auto simp: orchestrate_def truthy_def)

lemma orchestrate_unidentified:
  "\<not> truthy c \<Longrightarrow> orchestrate env cfg store prompt hist c k = (ret not_identified_msg, store)"
  by (auto simp: orchestrate_def truthy_def)

lemma orchestrate_trace_nonempty:
  "\<not> (c = Some ''GREETING'' \<and> k = Some ''GREETING'') \<Longrightarrow>
   \<not> (c = Some ''CHITCHAT'' \<and> k = Some ''CHITCHAT'') \<Longrightarrow> truthy c \<Longrightarrow> truthy k \<Longrightarrow>
   snd (fst (orchestrate env cfg store prompt hist c k)) \<noteq> []"
  by (auto simp: orchestrate_def bind_emit)

lemma fixed_replies_distinct:
  "clarification_prompt c \<noteq> greeting_reply"
  "clarification_prompt c \<noteq> acknowledgement_reply"
  "not_identified_msg \<noteq> greeting_reply"
  "not_identified_msg \<noteq> acknowledgement_reply"
  "acknowledgement_reply \<noteq> greeting_reply"
  by (simp_all add: clarification_prompt_def greeting_reply_def acknowledgement_reply_def
      not_identified_msg_def)

lemma greeting_only_when_both:
  "fst (orchestrate env cfg store prompt hist c k) = ret greeting_reply \<longleftrightarrow>
     c = Some ''GREETING'' \<and> k = Some ''GREETING''"
proof
  assume r: "fst (orchestrate env cfg store prompt hist c k) = ret greeting_reply"
  show "c = Some ''GREETING'' \<and> k = Some ''GREETING''"
  proof (rule ccontr)
    assume n: "\<not> (c = Some ''GREETING'' \<and> k = Some ''GREETING'')"
    show False
    proof (cases "c = Some ''CHITCHAT'' \<and> k = Some ''CHITCHAT''")
      case True
      with r show False
        by (simp add: orchestrate_chitchat ret_def fixed_replies_distinct)
    next
      case nc: False
      show False
      proof (cases "truthy c")
        case tc: True
        show False
        proof (cases "truthy k")
          case True
          with n nc tc have "snd (fst (orchestrate env cfg store prompt hist c k)) \<noteq> []"
            by (rule orchestrate_trace_nonempty)
          with r show False by (simp add: ret_def)
        next
          case False
          with tc r show False
            by (simp add: orchestrate_clarify ret_def fixed_replies_distinct)
        qed
      next
        case False
        with r show False
          by (simp add: orchestrate_unidentified ret_def fixed_replies_distinct)
      qed
    qed
  qed
next
  assume "c = Some ''GREETING'' \<and> k = Some ''GREETING''"
  then show "fst (orchestrate env cfg store prompt hist c k) = ret greeting_reply"
    by (simp add: orchestrate_greeting)
qed

lemma chitchat_only_when_both:
  "fst (orchestrate env cfg store prompt hist c k) = ret acknowledgement_reply \<longleftrightarrow>
     c = Some ''CHITCHAT'' \<and> k = Some ''CHITCHAT''"
proof
  assume r: "fst (orchestrate env cfg store prompt hist c k) = ret acknowledgement_reply"
  show "c = Some ''CHITCHAT'' \<and> k = Some ''CHITCHAT''"
  proof (rule ccontr)
    assume nc: "\<not> (c = Some ''CHITCHAT'' \<and> k = Some ''CHITCHAT'')"
    show False
    proof (cases "c = Some ''GREETING'' \<and> k = Some ''GREETING''")
      case True
      with r show False
        using fixed_replies_distinct(5) by (simp add: orchestrate_greeting ret_def)
    next
      case n: False
      show False
      proof (cases "truthy c")
        case tc: True
        show False
        proof (cases "truthy k")
          case True
          with n nc tc have "snd (fst (orchestrate env cfg store prompt hist c k)) \<noteq> []"
            by (rule orchestrate_trace_nonempty)
          with r show False by (simp add: ret_def)
        next
          case False
          with tc r show False
            by (simp add: orchestrate_clarify ret_def fixed_replies_distinct)
        qed
      next
        case False
        with r show False
          by (simp add: orchestrate_unidentified ret_def fixed_replies_distinct)
      qed
    qed
  qed
next
  assume "c = Some ''CHITCHAT'' \<and> k = Some ''CHITCHAT''"
  then show "fst (orchestrate env cfg store prompt hist c k) = ret acknowledgement_reply"
    by (simp add: orchestrate_chitchat)
qed

lemma empty_string_absent:
  "orchestrate env cfg store prompt hist (Some []) k = orchestrate env cfg store prompt hist None k"
  "orchestrate env cfg store prompt hist c (Some []) = orchestrate env cfg store prompt hist c None"
  by (simp_all add: orchestrate_def truthy_def)

lemma example_rag_answer:
  "docs \<noteq> [] \<Longrightarrow>
   fst (fst (get_rag_answer example_env example_cfg store prompt docs hist)) =
     Inr ''CompanyX offers cloud services.''"
  by (simp add: get_rag_answer_def rag_try_cases example_env_def example_cfg_def truthy_def)

text \<open>
  Claim C4. The orchestrator tries the conditions in order. Both fields \<^verbatim>\<open>"GREETING"\<close>:
  the fixed greeting, with no other effect. Both \<^verbatim>\<open>"CHITCHAT"\<close>: the fixed
  acknowledgement. Otherwise, company and service keywords both present (not \<^verbatim>\<open>None\<close>,
  not empty): the documents are retrieved; the reply is the fixed "couldn't find
  specific information" text when there are none, and what \<^verbatim>\<open>get_rag_answer\<close> returns
  for the prompt, these documents and the history otherwise. Company present and
  keywords absent: the clarification prompt, which names the company. Company absent:
  the fixed "couldn't identify" text.
\<close>

theorem orchestrator_transition_policy:
  "(c = Some ''GREETING'' \<and> k = Some ''GREETING'' \<longrightarrow>
      orchestrate env cfg store prompt hist c k = ((Inr greeting_reply, []), store))
   \<and> (c = Some ''CHITCHAT'' \<and> k = Some ''CHITCHAT'' \<longrightarrow>
      orchestrate env cfg store prompt hist c k = ((Inr acknowledgement_reply, []), store))
   \<and> (\<forall>company kws docs.
        c = Some company \<and> company \<noteq> [] \<and> k = Some kws \<and> kws \<noteq> []
        \<and> \<not> (company = ''GREETING'' \<and> kws = ''GREETING'')
        \<and> \<not> (company = ''CHITCHAT'' \<and> kws = ''CHITCHAT'')
        \<and> fst (get_company_web_content env cfg company kws) = Inr docs \<longrightarrow>
        (docs = [] \<longrightarrow>
           fst (fst (orchestrate env cfg store prompt hist c k)) = Inr no_specific_info_msg)
        \<and> (docs \<noteq> [] \<longrightarrow>
             fst (fst (orchestrate env cfg store prompt hist c k)) =
               fst (fst (get_rag_answer env cfg store prompt docs hist))))
   \<and> (truthy c \<and> \<not> truthy k \<longrightarrow>
        orchestrate env cfg store prompt hist c k =
          ((Inr (''I can look up information about '' @ the c
                 @ ''. What specific services or aspects are you interested in?''), []), store))
   \<and> (\<not> truthy c \<longrightarrow>
        orchestrate env cfg store prompt hist c k = ((Inr not_identified_msg, []), store))"
proof (intro conjI impI allI)
  assume "c = Some ''GREETING'' \<and> k = Some ''GREETING''"
  then show "orchestrate env cfg store prompt hist c k = ((Inr greeting_reply, []), store)"
    by (simp add: orchestrate_greeting ret_def)
next
  assume "c = Some ''CHITCHAT'' \<and> k = Some ''CHITCHAT''"
  then show "orchestrate env cfg store prompt hist c k = ((Inr acknowledgement_reply, []), store)"
    by (simp add: orchestrate_chitchat ret_def)
next
  fix company kws docs
  assume a: "c = Some company \<and> company \<noteq> [] \<and> k = Some kws \<and> kws \<noteq> []
        \<and> \<not> (company = ''GREETING'' \<and> kws = ''GREETING'')
        \<and> \<not> (company = ''CHITCHAT'' \<and> kws = ''CHITCHAT'')
        \<and> fst (get_company_web_content env cfg company kws) = Inr docs"
  then have r: "fst (fst (orchestrate env cfg store prompt hist c k)) =
           (if docs = [] then Inr no_specific_info_msg
            else fst (fst (get_rag_answer env cfg store prompt docs hist)))"
    by (intro orchestrate_rag) (auto simp: truthy_def)
  { assume "docs = []"
    with r show "fst (fst (orchestrate env cfg store prompt hist c k)) = Inr no_specific_info_msg"
      by simp }
  { assume "docs \<noteq> []"
    with r show "fst (fst (orchestrate env cfg store prompt hist c k)) =
               fst (fst (get_rag_answer env cfg store prompt docs hist))"
      by simp }
next
  assume a: "truthy c \<and> \<not> truthy k"
  then obtain company where "c = Some company"
    by (cases c) (auto simp: truthy_def)
  with a show "orchestrate env cfg store prompt hist c k =
          ((Inr (''I can look up information about '' @ the c
                 @ ''. What specific services or aspects are you interested in?''), []), store)"
    by (simp add: orchestrate_clarify ret_def clarification_prompt_def py_format_def)
next
  assume "\<not> truthy c"
  then show "orchestrate env cfg store prompt hist c k = ((Inr not_identified_msg, []), store)"
    by (simp add: orchestrate_unidentified ret_def)
qed

theorem orchestrator_transition_policy_witness:
  "orchestrate example_env example_cfg [] ''Hi there!'' [] (Some ''GREETING'') (Some ''GREETING'') =
     ((Inr ''Hello there! How can I assist you with company services today?'', []), [])
   \<and> fst (fst (orchestrate example_env example_cfg [] ''What are CompanyX's cloud services?'' []
            (Some ''CompanyX'') (Some ''cloud services''))) =
       Inr ''CompanyX offers cloud services.''
   \<and> fst (fst (orchestrate (example_env\<lparr>search := (\<lambda>r. Inr None)\<rparr>) example_cfg [] ''widgets?'' []
            (Some ''CompanyX'') (Some ''widgets''))) =
       Inr no_specific_info_msg
   \<and> orchestrate example_env example_cfg [] ''Tell me about Acme'' [] (Some ''Acme'') None =
       ((Inr ''I can look up information about Acme. What specific services or aspects are you interested in?'', []), [])
   \<and> orchestrate example_env example_cfg [] ''hmm'' [] None None =
       ((Inr not_identified_msg, []), [])"
proof -
  have d1: "fst (get_company_web_content example_env example_cfg ''CompanyX'' ''cloud services'') =
      Inr (map (item_document ''CompanyX''
             (''CompanyX'' @ '' '' @ ''cloud services'' @ '' services reviews official site''))
             example_items)"
    using web_content_ok [of example_cfg example_env "()" "''CompanyX''" "''cloud services''"
        "Some example_items"]
    by (simp add: example_cfg_def example_env_def truthy_def)
  have d2: "fst (get_company_web_content (example_env\<lparr>search := (\<lambda>r. Inr None)\<rparr>) example_cfg
                ''CompanyX'' ''widgets'') = Inr []"
    using web_content_ok [of example_cfg "example_env\<lparr>search := (\<lambda>r. Inr None)\<rparr>" "()"
        "''CompanyX''" "''widgets''" None]
    by (simp add: example_cfg_def example_env_def truthy_def)
  have ne: "map (item_document ''CompanyX''
             (''CompanyX'' @ '' '' @ ''cloud services'' @ '' services reviews official site''))
             example_items \<noteq> []"
    by (simp add: example_items_def)
  note p = orchestrator_transition_policy
  from p [of "Some ''GREETING''" "Some ''GREETING''" example_env example_cfg "[]" "''Hi there!''" "[]"]
  have w1: "orchestrate example_env example_cfg [] ''Hi there!'' [] (Some ''GREETING'') (Some ''GREETING'') =
     ((Inr ''Hello there! How can I assist you with company services today?'', []), [])"
    by (simp add: greeting_reply_def)
  from p [of "Some ''CompanyX''" "Some ''cloud services''" example_env example_cfg "[]"
      "''What are CompanyX's cloud services?''" "[]"] d1 ne
  have w2: "fst (fst (orchestrate example_env example_cfg [] ''What are CompanyX's cloud services?'' []
            (Some ''CompanyX'') (Some ''cloud services''))) =
       Inr ''CompanyX offers cloud services.''"
    by (simp add: example_rag_answer)
  from p [of "Some ''CompanyX''" "Some ''widgets''" "example_env\<lparr>search := (\<lambda>r. Inr None)\<rparr>"
      example_cfg "[]" "''widgets?''" "[]"] d2
  have w3: "fst (fst (orchestrate (example_env\<lparr>search := (\<lambda>r. Inr None)\<rparr>) example_cfg []
            ''widgets?'' [] (Some ''CompanyX'') (Some ''widgets''))) = Inr no_specific_info_msg"
    by simp
  from p [of "Some ''Acme''" None example_env example_cfg "[]" "''Tell me about Acme''" "[]"]
  have w4: "orchestrate example_env example_cfg [] ''Tell me about Acme'' [] (Some ''Acme'') None =
       ((Inr ''I can look up information about Acme. What specific services or aspects are you interested in?'', []), [])"
    by (simp add: truthy_def)
  from p [of None None example_env example_cfg "[]" "''hmm''" "[]"]
  have w5: "orchestrate example_env example_cfg [] ''hmm'' [] None None =
       ((Inr not_identified_msg, []), [])"
    by (simp add: truthy_def)
  from w1 w2 w3 w4 w5 show ?thesis by blast
qed

text \<open>
  Claim C10. The orchestrator gives the greeting (the acknowledgement) with no other
  effect exactly when both fields are \<^verbatim>\<open>"GREETING"\<close> (both \<^verbatim>\<open>"CHITCHAT"\<close>). For the mixed
  pair \<^verbatim>\<open>("GREETING", None)\<close> the reply is the clarification prompt with \<^verbatim>\<open>GREETING\<close> as the
  company. A field that is the empty string is treated exactly as a field that is
  \<^verbatim>\<open>None\<close>.
\<close>

theorem marker_and_truthiness_tests:
  "(fst (orchestrate env cfg store prompt hist c k) = (Inr greeting_reply, []) \<longleftrightarrow>
      c = Some ''GREETING'' \<and> k = Some ''GREETING'')
   \<and> (fst (orchestrate env cfg store prompt hist c k) = (Inr acknowledgement_reply, []) \<longleftrightarrow>
      c = Some ''CHITCHAT'' \<and> k = Some ''CHITCHAT'')
   \<and> orchestrate env cfg store prompt hist (Some ''GREETING'') None =
       ((Inr ''I can look up information about GREETING. What specific services or aspects are you interested in?'', []), store)
   \<and> orchestrate env cfg store prompt hist (Some []) k = orchestrate env cfg store prompt hist None k
   \<and> orchestrate env cfg store prompt hist c (Some []) = orchestrate env cfg store prompt hist c None"
proof (intro conjI)
  show "fst (orchestrate env cfg store prompt hist c k) = (Inr greeting_reply, []) \<longleftrightarrow>
      c = Some ''GREETING'' \<and> k = Some ''GREETING''"
    using greeting_only_when_both [of env cfg store prompt hist c k] by (simp add: ret_def)
  show "fst (orchestrate env cfg store prompt hist c k) = (Inr acknowledgement_reply, []) \<longleftrightarrow>
      c = Some ''CHITCHAT'' \<and> k = Some ''CHITCHAT''"
    using chitchat_only_when_both [of env cfg store prompt hist c k] by (simp add: ret_def)
  show "orchestrate env cfg store prompt hist (Some ''GREETING'') None =
       ((Inr ''I can look up information about GREETING. What specific services or aspects are you interested in?'', []), store)"
    by (simp add: orchestrate_clarify truthy_def ret_def clarification_prompt_def py_format_def)
  show "orchestrate env cfg store prompt hist (Some []) k = orchestrate env cfg store prompt hist None k"
    by (rule empty_string_absent)
  show "orchestrate env cfg store prompt hist c (Some []) = orchestrate env cfg store prompt hist c None"
    by (rule empty_string_absent)
qed

theorem marker_and_truthiness_tests_witness:
  "fst (orchestrate example_env example_cfg [] ''Hi'' [] (Some ''GREETING'') None)
     \<noteq> (Inr greeting_reply, [])
   \<and> orchestrate example_env example_cfg [] ''Hi'' [] (Some ''GREETING'') None =
       ((Inr ''I can look up information about GREETING. What specific services or aspects are you interested in?'', []), [])
   \<and> orchestrate example_env example_cfg [] ''cloud?'' [] (Some []) (Some ''cloud'') =
       ((Inr not_identified_msg, []), [])
   \<and> orchestrate example_env example_cfg [] ''Acme?'' [] (Some ''Acme'') (Some []) =
       ((Inr ''I can look up information about Acme. What specific services or aspects are you interested in?'', []), [])"
proof -
  note m = marker_and_truthiness_tests
  from m [of example_env example_cfg "[]" "''Hi''" "[]" "Some ''GREETING''" None]
  have w1: "fst (orchestrate example_env example_cfg [] ''Hi'' [] (Some ''GREETING'') None)
     \<noteq> (Inr greeting_reply, [])"
    and w2: "orchestrate example_env example_cfg [] ''Hi'' [] (Some ''GREETING'') None =
       ((Inr ''I can look up information about GREETING. What specific services or aspects are you interested in?'', []), [])"
    by (simp_all add: greeting_reply_def)
  from m [of example_env example_cfg "[]" "''cloud?''" "[]" None "Some ''cloud''"]
  have w3: "orchestrate example_env example_cfg [] ''cloud?'' [] (Some []) (Some ''cloud'') =
       ((Inr not_identified_msg, []), [])"
    by (simp add: orchestrate_unidentified truthy_def ret_def)
  from m [of example_env example_cfg "[]" "''Acme?''" "[]" "Some ''Acme''" None]
  have w4: "orchestrate example_env example_cfg [] ''Acme?'' [] (Some ''Acme'') (Some []) =
       ((Inr ''I can look up information about Acme. What specific services or aspects are you interested in?'', []), [])"
    by (simp add: orchestrate_clarify truthy_def ret_def clarification_prompt_def py_format_def)
  from w1 w2 w3 w4 show ?thesis by blast
qed

section \<open>The retrieval step of \<^verbatim>\<open>get_rag_answer\<close>\<close>

lemma retrieval_events_append:
  "retrieval_events (xs @ ys) = retrieval_events xs @ retrieval_events ys"
  by (induction xs rule: retrieval_events.induct) simp_all

lemma indexes_queried_append:
  "indexes_queried (xs @ ys) = indexes_queried xs @ indexes_queried ys"
  by (induction xs rule: indexes_queried.induct) simp_all

lemma rag_try_retrieval_events:
  "retrieval_events (snd (fst (rag_try env store uq docs h1))) =
     retrieval_events (snd (fst (rag_try env store uq docs h2)))"
  by (simp add: rag_try_cases split: sum.split)

lemma get_rag_answer_trace:
  "snd (fst (get_rag_answer env cfg store uq docs hist)) =
     (if \<not> truthy (GOOGLE_API_KEY cfg) \<or> docs = [] then []
      else snd (fst (rag_try env store uq docs hist)) @
           (case fst (fst (rag_try env store uq docs hist)) of
              Inl e \<Rightarrow> [Printed (''An error occurred during RAG processing: '' @ str_of_fault e),
                        TracebackPrinted]
            | Inr a \<Rightarrow> []))"
  by (cases "fst (rag_try env store uq docs hist)")
     (auto simp: get_rag_answer_def ret_def split: sum.split)

lemma get_rag_answer_store:
  "snd (get_rag_answer env cfg store uq docs hist) =
     (if \<not> truthy (GOOGLE_API_KEY cfg) \<or> docs = [] then store
      else snd (rag_try env store uq docs hist))"
  by (simp add: get_rag_answer_def)

lemma get_rag_answer_retrieval_events:
  "retrieval_events (snd (fst (get_rag_answer env cfg store uq docs hist))) =
     (if \<not> truthy (GOOGLE_API_KEY cfg) \<or> docs = [] then []
      else retrieval_events (snd (fst (rag_try env store uq docs hist))))"
  by (simp add: get_rag_answer_trace retrieval_events_append split: sum.split)

lemma get_rag_answer_indexes:
  "indexes_queried (snd (fst (get_rag_answer env cfg store uq docs hist))) =
     (if \<not> truthy (GOOGLE_API_KEY cfg) \<or> docs = [] then []
      else indexes_queried (snd (fst (rag_try env store uq docs hist))))"
  by (simp add: get_rag_answer_trace indexes_queried_append split: sum.split)

lemma rag_try_indexes:
  "s \<in> set (indexes_queried (snd (fst (rag_try env store uq docs hist)))) \<Longrightarrow>
   map fst s = map fst store @ docs"
  by (auto simp: rag_try_cases split: sum.splits if_splits)

lemma rag_try_indexes_length:
  "length (indexes_queried (snd (fst (rag_try env store uq docs hist)))) \<le> 1"
  by (auto simp: rag_try_cases split: sum.splits if_splits)

lemma retrieval_chain_context:
  "retrieval_chain_invoke env vs uq h1 = (Inr r1, t1) \<Longrightarrow>
   retrieval_chain_invoke env vs uq h2 = (Inr r2, t2) \<Longrightarrow>
   context_docs r1 = context_docs r2"
  by (auto simp: retrieval_chain_invoke_def retriever_invoke_def document_chain_def
      bind_def call_def ret_def split: sum.splits)

text \<open>
  What a call searches, in general: at most one store, which holds the documents the
  collection had before the call, followed by the documents of the call. In a process
  whose collection is still empty it holds exactly the documents of the call.
\<close>

lemma get_rag_answer_searches_whole_collection:
  "s \<in> set (indexes_queried (snd (fst (get_rag_answer env cfg store uq docs hist)))) \<Longrightarrow>
   map fst s = map fst store @ docs"
  by (auto simp: get_rag_answer_indexes rag_try_indexes split: if_splits)

lemma get_rag_answer_first_call:
  "s \<in> set (indexes_queried (snd (fst (get_rag_answer env cfg [] uq docs hist)))) \<Longrightarrow>
   map fst s = docs"
  using get_rag_answer_searches_whole_collection [of s env cfg "[]" uq docs hist] by simp

lemma get_rag_answer_collection_grows:
  "\<exists>added. snd (get_rag_answer env cfg store uq docs hist) = store @ added"
  by (auto simp: get_rag_answer_store rag_try_store split: sum.split)

text \<open>
  Claim C7. Two runs of \<^verbatim>\<open>get_rag_answer\<close> on the same question and the same documents,
  from the same state of the vector store, with different conversation histories, make
  the same retrieval calls: the same texts are embedded and the same store is searched
  with the same query vector and \<open>k = 3\<close>; they leave the same collection behind. And
  when the retrieval chain answers in both runs, on whatever store, the documents it
  retrieved (the \<^verbatim>\<open>context\<close> of its response) are the same. The history reaches the
  completion prompt only.
\<close>

theorem history_not_used_for_retrieval:
  "retrieval_events (snd (fst (get_rag_answer env cfg store uq docs h1))) =
     retrieval_events (snd (fst (get_rag_answer env cfg store uq docs h2)))
   \<and> snd (get_rag_answer env cfg store uq docs h1) = snd (get_rag_answer env cfg store uq docs h2)
   \<and> (\<forall>vs r1 t1 r2 t2.
        retrieval_chain_invoke env vs uq h1 = (Inr r1, t1)
        \<and> retrieval_chain_invoke env vs uq h2 = (Inr r2, t2) \<longrightarrow>
        context_docs r1 = context_docs r2)"
proof (intro conjI allI impI)
  show "retrieval_events (snd (fst (get_rag_answer env cfg store uq docs h1))) =
     retrieval_events (snd (fst (get_rag_answer env cfg store uq docs h2)))"
    using rag_try_retrieval_events [of env store uq docs h1 h2]
    by (simp add: get_rag_answer_retrieval_events)
next
  show "snd (get_rag_answer env cfg store uq docs h1) = snd (get_rag_answer env cfg store uq docs h2)"
    by (simp add: get_rag_answer_store rag_try_store)
next
  fix vs r1 t1 r2 t2
  assume "retrieval_chain_invoke env vs uq h1 = (Inr r1, t1)
        \<and> retrieval_chain_invoke env vs uq h2 = (Inr r2, t2)"
  then show "context_docs r1 = context_docs r2"
    using retrieval_chain_context by blast
qed

theorem history_not_used_for_retrieval_witness:
  "retrieval_events (snd (fst (get_rag_answer example_env example_cfg [] ''What cloud services?''
       example_docs []))) =
     retrieval_events (snd (fst (get_rag_answer example_env example_cfg [] ''What cloud services?''
       example_docs [HumanMessage ''Tell me about Company B'', AIMessage ''Company B sells hardware.''])))
   \<and> (\<exists>r1 t1 r2 t2.
        retrieval_chain_invoke example_env (zip example_docs [50, 53]) ''What cloud services?'' [] =
          (Inr r1, t1)
        \<and> retrieval_chain_invoke example_env (zip example_docs [50, 53]) ''What cloud services?''
            [HumanMessage ''Tell me about Company B'', AIMessage ''Company B sells hardware.''] =
          (Inr r2, t2)
        \<and> context_docs r1 = example_docs \<and> context_docs r2 = context_docs r1)"
proof -
  note h = history_not_used_for_retrieval [of example_env example_cfg "[]" "''What cloud services?''"
      example_docs "[]" "[HumanMessage ''Tell me about Company B'', AIMessage ''Company B sells hardware.'']"]
  have r: "\<And>hist. retrieval_chain_invoke example_env (zip example_docs [50, 53])
             ''What cloud services?'' hist =
           (Inr \<lparr>context_docs = example_docs, answer = Some ''CompanyX offers cloud services.''\<rparr>,
            [EmbedQuery ''What cloud services?'',
             SimilaritySearch (zip example_docs [50, 53]) 20 3,
             CompletionCall (qa_prompt example_docs hist ''What cloud services?'')])"
    by (simp add: retrieval_chain_invoke_def retriever_invoke_def document_chain_def
        bind_def call_def ret_def example_env_def example_docs_def)
  from h r show ?thesis by auto
qed

text \<open>
  Claim C8 does not hold of the source from the second call of a process on. The
  docstring of \<^verbatim>\<open>get_rag_answer\<close> and the comment at the call say that the store is made
  from the provided documents, but the call names no collection, so the documents of
  earlier calls are still in the store that is searched. Here a first call, in a new
  process, is given the two documents about Company A, and leaves them in the
  collection; the second call is given one document about Company B, and searches a
  store of three.
\<close>

theorem second_call_searches_earlier_documents:
  "snd (get_rag_answer example_env example_cfg []
          ''What cloud services does Company A offer?'' example_docs []) =
     zip example_docs [50, 53]
   \<and> indexes_queried (snd (fst (get_rag_answer example_env example_cfg
        (snd (get_rag_answer example_env example_cfg []
                ''What cloud services does Company A offer?'' example_docs []))
        ''What does Company B sell?''
        [\<lparr>page_content = ''Company B sells hardware.'', metadata = []\<rparr>] []))) =
     [zip example_docs [50, 53]
      @ [(\<lparr>page_content = ''Company B sells hardware.'', metadata = []\<rparr>, 25)]]
   \<and> map fst (zip example_docs [50, 53 :: nat]
               @ [(\<lparr>page_content = ''Company B sells hardware.'', metadata = []\<rparr>, 25)])
       \<noteq> [\<lparr>page_content = ''Company B sells hardware.'', metadata = []\<rparr>]"
proof -
  have s1: "snd (get_rag_answer example_env example_cfg []
          ''What cloud services does Company A offer?'' example_docs []) =
     zip example_docs [50, 53]"
    by (simp add: get_rag_answer_store rag_try_store example_env_def example_cfg_def
        example_docs_def truthy_def)
  have s2: "indexes_queried (snd (fst (get_rag_answer example_env example_cfg
        (zip example_docs [50, 53]) ''What does Company B sell?''
        [\<lparr>page_content = ''Company B sells hardware.'', metadata = []\<rparr>] []))) =
     [zip example_docs [50, 53]
      @ [(\<lparr>page_content = ''Company B sells hardware.'', metadata = []\<rparr>, 25)]]"
    by (simp add: get_rag_answer_indexes rag_try_cases example_env_def example_cfg_def
        truthy_def)
  have s3: "map fst (zip example_docs [50, 53 :: nat]
               @ [(\<lparr>page_content = ''Company B sells hardware.'', metadata = []\<rparr>, 25)])
       \<noteq> [\<lparr>page_content = ''Company B sells hardware.'', metadata = []\<rparr>]"
    by (simp add: example_docs_def)
  from s1 s2 s3 show ?thesis by simp
qed

section \<open>The entity extractor \<^verbatim>\<open>extract_query_entities\<close>\<close>

text \<open>
  The extraction chain is called exactly once, whatever happens afterwards. A response
  that \<^verbatim>\<open>json.loads\<close> refuses gives \<open>(None, None)\<close> and a warning; a fault of the chain
  that is not a \<^verbatim>\<open>JSONDecodeError\<close> gives \<open>(None, None)\<close> and an error notice.
\<close>

lemma extraction_calls_append:
  "extraction_calls (xs @ ys) = extraction_calls xs @ extraction_calls ys"
  by (induction xs rule: extraction_calls.induct) simp_all

lemma extract_handlers_trace:
  "extraction_calls (snd (extract_handlers js e :: ('v, string option \<times> string option) comp)) = []"
  by (simp add: extract_handlers_def raise_def split: fault.split option.split)

lemma extract_single_call:
  "extraction_calls (snd (extract_query_entities env query)) = [query]"
  by (simp add: extract_query_entities_def bind_emit extract_handlers_trace ret_def Let_def
      split: sum.split pyobj.split)

lemma extract_malformed_json:
  "extraction_chain env query = Inr raw \<Longrightarrow>
   json_loads env (py_replace ''\<newline>```'' [] (py_replace ''```json\<newline>'' [] (py_strip raw))) =
     Inl (JSONDecodeError m) \<Longrightarrow>
   extract_query_entities env query =
     (Inr (None, None),
      [ExtractionCall query,
       StWarning (''Could not parse entity extraction response: ''
                  @ py_replace ''\<newline>```'' [] (py_replace ''```json\<newline>'' [] (py_strip raw))
                  @ ''. Error: '' @ m)])"
  by (simp add: extract_query_entities_def bind_emit extract_handlers_def Let_def)

lemma extract_completion_fault:
  "extraction_chain env query = Inl e \<Longrightarrow> \<forall>m. e \<noteq> JSONDecodeError m \<Longrightarrow>
   extract_query_entities env query =
     (Inr (None, None),
      [ExtractionCall query, StError (''Error during entity extraction: '' @ str_of_fault e)])"
  by (cases e) (simp_all add: extract_query_entities_def bind_emit extract_handlers_def)

lemma extract_decode_error_in_completion:
  "extraction_chain env query = Inl (JSONDecodeError m) \<Longrightarrow>
   extract_query_entities env query =
     (Inl (UnboundLocalError
        ''cannot access local variable 'json_str' where it is not associated with a value''),
      [ExtractionCall query])"
  by (simp add: extract_query_entities_def bind_emit extract_handlers_def raise_def)

text \<open>
  Claim C5 does not hold of the source at one fault: when the call of the extraction
  chain itself raises a \<^verbatim>\<open>json.JSONDecodeError\<close>, the handler for that class reads the
  local variable \<^verbatim>\<open>json_str\<close>, which has no value yet, and an \<^verbatim>\<open>UnboundLocalError\<close> leaves
  \<^verbatim>\<open>extract_query_entities\<close> and the turn.
\<close>

theorem extract_query_entities_propagates_fault:
  "fst (extract_query_entities
          (example_env\<lparr>extraction_chain :=
             (\<lambda>query. Inl (JSONDecodeError ''Expecting value: line 1 column 1 (char 0)''))\<rparr>)
          ''Hi there!'') =
     Inl (UnboundLocalError
        ''cannot access local variable 'json_str' where it is not associated with a value'')
   \<and> fst (fst (handle_prompt
          (example_env\<lparr>extraction_chain :=
             (\<lambda>query. Inl (JSONDecodeError ''Expecting value: line 1 column 1 (char 0)''))\<rparr>)
          example_cfg [] [] ''Hi there!'')) =
     Inl (UnboundLocalError
        ''cannot access local variable 'json_str' where it is not associated with a value'')"
  by (simp add: extract_decode_error_in_completion handle_prompt_def bind_emit bind_Inl Let_def)

end
